theory Spec2Isabelle
  imports Complex_Main "HOL-Library.Log_Nat"
begin

section \<open>GSTMatcher: the data the matcher works on\<close>

text \<open>
  The matcher (\<^verbatim>\<open>src/gst_matcher.py\<close>, class \<^verbatim>\<open>GSTMatcher\<close>) receives two pandas
  frames built by \<^verbatim>\<open>load_data\<close>. A frame is modelled by the list of its rows, a row
  by a record with one field per column the loader keeps (lines 52-59, with the
  headers of \<^verbatim>\<open>get_default_config\<close>). Strings are byte strings (UTF-8). An amount is
  the rational value of a finite float64 cell (a frame of whole amounts only is int64,
  with the same values); cells that are NaN or infinite are outside the model. A
  timestamp is a calendar date: the loader parses day, month and year only.
\<close>

record date =
  day :: nat
  month :: nat
  year :: nat

record company_row =
  c_GSTIN_of_supplier :: string
  c_Party_Name :: string
  c_Accounting_Document_No :: string
  c_Invoice_No :: string
  c_Invoice_Date :: date
  c_CGST_Amount :: rat
  c_SGST_Amount :: rat
  c_IGST_Amount :: rat
  c_Total :: rat

record portal_row =
  p_GSTIN_of_supplier :: string
  p_Invoice_number :: string
  p_Invoice_Date :: date
  p_Central_Tax :: rat
  p_State_UT_Tax :: rat
  p_Integrated_Tax :: rat
  p_Total :: rat

text \<open>
  \<^verbatim>\<open>match_invoices\<close> assigns the columns \<^verbatim>\<open>Clean_Invoice\<close> and \<^verbatim>\<open>Date_Str\<close> on the frames
  it is given (lines 72-75). A frame as the caller holds it is therefore the rows of the
  loader together with these derived columns, which a frame fresh from the loader does
  not have.
\<close>

record company_df =
  company_rows :: "company_row list"
  company_Clean_Invoice :: "string list option"
  company_Date_Str :: "string list option"

record portal_df =
  portal_rows :: "portal_row list"
  portal_Clean_Invoice :: "string list option"

section \<open>The float64 subtraction of the Total columns\<close>

text \<open>
  Lines 95, 113 and 126 subtract two cells of the \<^verbatim>\<open>Total\<close> columns. On float64 cells
  this is the IEEE 754 binary64 subtraction: the exact difference rounded to the nearest
  value with 53 significant bits, ties to the even one, with the subnormal spacing
  \<open>2 powi -1074\<close> below \<open>2 powi -1022\<close>, and an infinity when the rounded value reaches
  \<open>2 ^ 1024\<close>. The result of a subtraction of finite cells is never NaN.
\<close>

datatype float64 = Finite rat | PosInf | NegInf

text \<open>The exponent \<open>e\<close> of a positive rational: \<open>2 powi e \<le> x < 2 powi (e + 1)\<close>.\<close>

definition binade :: "rat \<Rightarrow> int" where
  "binade x = (if 1 \<le> x then bitlen \<lfloor>x\<rfloor> - 1 else - bitlen (\<lceil>1 / x\<rceil> - 1))"

definition round_half_even :: "rat \<Rightarrow> int" where
  "round_half_even n =
     (let f = \<lfloor>n\<rfloor>; r = n - of_int f
      in if r < 1 / 2 then f else if 1 / 2 < r then f + 1 else if even f then f else f + 1)"

definition float64_round :: "rat \<Rightarrow> float64" where
  "float64_round x =
     (if x = 0 then Finite 0
      else let q = 2 powi (max (binade \<bar>x\<bar>) (- 1022) - 52);
               y = of_int (round_half_even (\<bar>x\<bar> / q)) * q
           in if 2 ^ 1024 \<le> y then (if 0 < x then PosInf else NegInf)
              else Finite (if 0 < x then y else - y))"

definition float64_sub :: "rat \<Rightarrow> rat \<Rightarrow> float64" where
  "float64_sub a b = float64_round (a - b)"

text \<open>\<^verbatim>\<open>abs(d) <= buffer_size\<close> (line 113), the tolerance being finite.\<close>

definition float64_abs_le :: "float64 \<Rightarrow> rat \<Rightarrow> bool" where
  "float64_abs_le d t = (case d of Finite z \<Rightarrow> \<bar>z\<bar> \<le> t | PosInf \<Rightarrow> False | NegInf \<Rightarrow> False)"

text \<open>Negation and sign of a float64 value, to state which way a difference points.\<close>

definition float64_neg :: "float64 \<Rightarrow> float64" where
  "float64_neg d = (case d of Finite z \<Rightarrow> Finite (- z) | PosInf \<Rightarrow> NegInf | NegInf \<Rightarrow> PosInf)"

definition float64_nonneg :: "float64 \<Rightarrow> bool" where
  "float64_nonneg d = (case d of Finite z \<Rightarrow> 0 \<le> z | PosInf \<Rightarrow> True | NegInf \<Rightarrow> False)"

text \<open>The dictionaries appended to the two output lists (lines 87-98, 118-129, 135-141).\<close>

datatype match_status = Exact | Close

record matched_record =
  GSTIN :: string
  Party_Name :: string
  Accounting_Document_No :: string
  Invoice_No :: string
  Invoice_Date :: string
  Firm_Total :: rat
  Portal_Total :: rat
  Difference :: float64
  Match_Status :: match_status
  Portal_Match :: string

record unmatched_record =
  u_GSTIN :: string
  u_Party_Name :: string
  u_Invoice_No :: string
  u_Invoice_Date :: string
  u_Firm_Total :: rat

datatype error = KeyError string

section \<open>Cleaning invoice numbers and printing dates\<close>

text \<open>The character class \<^verbatim>\<open>[0-9a-zA-Z]\<close> of the pattern at line 69.\<close>

definition alnum :: "char \<Rightarrow> bool" where
  "alnum c \<longleftrightarrow>
     (let n = (of_char c :: nat)
      in (48 \<le> n \<and> n \<le> 57) \<or> (97 \<le> n \<and> n \<le> 122) \<or> (65 \<le> n \<and> n \<le> 90))"

text \<open>
  \<^verbatim>\<open>re.sub('[^0-9a-zA-Z]+', '', str(invoice))\<close>: scanning from the left, a character of
  the class is copied; at any other character the pattern matches the longest run of
  characters outside the class, and the run is replaced by the empty string.
\<close>

function clean_invoice :: "string \<Rightarrow> string" where
  "clean_invoice [] = []"
| "clean_invoice (c # cs) =
     (if alnum c then c # clean_invoice cs
      else clean_invoice (dropWhile (\<lambda>x. \<not> alnum x) cs))"
  by pat_completeness auto
termination
  by (relation "measure length") (auto simp: less_Suc_eq_le length_dropWhile_le)

text \<open>\<^verbatim>\<open>.dt.strftime('%d-%m-%Y')\<close> (line 75): two digits, two digits, four digits.\<close>

definition digit :: "nat \<Rightarrow> char" where
  "digit n = ''0123456789'' ! (n mod 10)"

definition strftime_dmY :: "date \<Rightarrow> string" where
  "strftime_dmY d =
     [digit (day d div 10), digit (day d)] @ ''-'' @
     [digit (month d div 10), digit (month d)] @ ''-'' @
     [digit (year d div 1000), digit (year d div 100), digit (year d div 10), digit (year d)]"

section \<open>Pass 1: the inner join on (GSTIN of supplier, Clean_Invoice)\<close>

text \<open>
  Lines 77-83. The merged frame has one row for every pair of a company row and a portal
  row with equal keys, in the order of the company rows and, for one company row, of the
  portal rows. \<^verbatim>\<open>Clean_Invoice\<close> holds, on both frames, the value assigned at lines 72-73.
\<close>

definition exact_matches :: "company_row list \<Rightarrow> portal_row list \<Rightarrow> (company_row \<times> portal_row) list" where
  "exact_matches company portal =
     [(c, p). c \<leftarrow> company, p \<leftarrow> portal,
        c_GSTIN_of_supplier c = p_GSTIN_of_supplier p \<and>
        clean_invoice (c_Invoice_No c) = clean_invoice (p_Invoice_number p)]"

text \<open>Lines 87-98: the dictionary of one row of the merged frame.\<close>

definition exact_record :: "company_row \<times> portal_row \<Rightarrow> matched_record" where
  "exact_record row =
     (case row of (c, p) \<Rightarrow>
       \<lparr>GSTIN = c_GSTIN_of_supplier c,
        Party_Name = c_Party_Name c,
        Accounting_Document_No = c_Accounting_Document_No c,
        Invoice_No = c_Invoice_No c,
        Invoice_Date = strftime_dmY (c_Invoice_Date c),
        Firm_Total = c_Total c,
        Portal_Total = p_Total p,
        Difference = float64_sub (p_Total p) (c_Total c),
        Match_Status = Exact,
        Portal_Match = p_Invoice_number p\<rparr>)"

section \<open>Pass 2: the close matches\<close>

text \<open>
  Line 112 reads a column of the portal frame by its header. The columns of that frame
  are the ones \<^verbatim>\<open>load_data\<close> selects and computes (lines 53, 56, 59) and the one line 73
  adds; a header that is none of them raises \<^verbatim>\<open>KeyError\<close>.
\<close>

datatype cell = StrCell string | DateCell date | NumCell rat

definition rupee :: string where
  "rupee = [char_of (226 :: nat), char_of (130 :: nat), char_of (185 :: nat)]"

definition portal_columns :: "portal_row list \<Rightarrow> (string \<times> cell list) list" where
  "portal_columns rows =
     [(''GSTIN of supplier'', map (\<lambda>p. StrCell (p_GSTIN_of_supplier p)) rows),
      (''Invoice number'', map (\<lambda>p. StrCell (p_Invoice_number p)) rows),
      (''Invoice Date'', map (\<lambda>p. DateCell (p_Invoice_Date p)) rows),
      (''Central Tax('' @ rupee @ '')'', map (\<lambda>p. NumCell (p_Central_Tax p)) rows),
      (''State/UT Tax('' @ rupee @ '')'', map (\<lambda>p. NumCell (p_State_UT_Tax p)) rows),
      (''Integrated Tax('' @ rupee @ '')'', map (\<lambda>p. NumCell (p_Integrated_Tax p)) rows),
      (''Total'', map (\<lambda>p. NumCell (p_Total p)) rows),
      (''Clean_Invoice'', map (\<lambda>p. StrCell (clean_invoice (p_Invoice_number p))) rows)]"

definition getitem :: "(string \<times> cell list) list \<Rightarrow> string \<Rightarrow> error + cell list" where
  "getitem columns name =
     (case map_of columns name of None \<Rightarrow> Inl (KeyError name) | Some col \<Rightarrow> Inr col)"

text \<open>Lines 118-129: the dictionary of a close match.\<close>

definition close_record :: "string \<Rightarrow> company_row \<Rightarrow> portal_row \<Rightarrow> matched_record" where
  "close_record gstin company_row portal_row =
     \<lparr>GSTIN = gstin,
      Party_Name = c_Party_Name company_row,
      Accounting_Document_No = c_Accounting_Document_No company_row,
      Invoice_No = c_Invoice_No company_row,
      Invoice_Date = strftime_dmY (c_Invoice_Date company_row),
      Firm_Total = c_Total company_row,
      Portal_Total = p_Total portal_row,
      Difference = float64_sub (p_Total portal_row) (c_Total company_row),
      Match_Status = Close,
      Portal_Match = p_Invoice_number portal_row\<rparr>"

text \<open>
  The two variables the loops of lines 105-130 update: the list
  \<^verbatim>\<open>close_matched_records\<close> and the set \<^verbatim>\<open>matched_invoices\<close>.
\<close>

record close_state =
  close_matched_records :: "matched_record list"
  matched_invoices :: "string set"

text \<open>
  Lines 111-130, the body of the inner loop for one \<^verbatim>\<open>company_row\<close>: the mask over
  \<^verbatim>\<open>portal_subset\<close>, the first row it keeps (\<^verbatim>\<open>iloc[0]\<close>), and the two updates. A cell
  equals the company date only if it is that date.
\<close>

definition close_match_row ::
  "portal_row list \<Rightarrow> rat \<Rightarrow> string \<Rightarrow> company_row \<Rightarrow> close_state \<Rightarrow> error + close_state" where
  "close_match_row portal_subset buffer_size gstin company_row st =
     (case getitem (portal_columns portal_subset) ''Invoice Date_x'' of
        Inl e \<Rightarrow> Inl e
      | Inr col \<Rightarrow>
          (case [p. (x, p) \<leftarrow> zip col portal_subset,
                    x = DateCell (c_Invoice_Date company_row) \<and>
                    float64_abs_le (float64_sub (p_Total p) (c_Total company_row))
                      buffer_size] of
             [] \<Rightarrow> Inr st
           | portal_row # _ \<Rightarrow>
               Inr \<lparr>close_matched_records =
                      close_matched_records st @ [close_record gstin company_row portal_row],
                    matched_invoices = insert (c_Invoice_No company_row) (matched_invoices st)\<rparr>))"

text \<open>Line 110: the loop over the rows of \<^verbatim>\<open>company_subset\<close>; an exception ends it.\<close>

fun close_match_rows ::
  "portal_row list \<Rightarrow> rat \<Rightarrow> string \<Rightarrow> company_row list \<Rightarrow> close_state \<Rightarrow> error + close_state" where
  "close_match_rows portal_subset buffer_size gstin [] st = Inr st"
| "close_match_rows portal_subset buffer_size gstin (company_row # rest) st =
     (case close_match_row portal_subset buffer_size gstin company_row st of
        Inl e \<Rightarrow> Inl e
      | Inr st' \<Rightarrow> close_match_rows portal_subset buffer_size gstin rest st')"

text \<open>\<^verbatim>\<open>Series.unique()\<close>: the distinct values in the order of their first occurrence.\<close>

fun unique :: "'a list \<Rightarrow> 'a list" where
  "unique [] = []"
| "unique (x # xs) = x # unique (filter (\<lambda>y. y \<noteq> x) xs)"

text \<open>Lines 105-109: the loop over the GSTINs of the company rows still unmatched.\<close>

fun close_match_groups ::
  "company_row list \<Rightarrow> portal_row list \<Rightarrow> rat \<Rightarrow> string list \<Rightarrow> close_state \<Rightarrow> error + close_state" where
  "close_match_groups unmatched_company portal buffer_size [] st = Inr st"
| "close_match_groups unmatched_company portal buffer_size (gstin # gstins) st =
     (let company_subset = filter (\<lambda>c. c_GSTIN_of_supplier c = gstin) unmatched_company;
          portal_subset = filter (\<lambda>p. p_GSTIN_of_supplier p = gstin) portal
      in if portal_subset \<noteq> [] then
           (case close_match_rows portal_subset buffer_size gstin company_subset st of
              Inl e \<Rightarrow> Inl e
            | Inr st' \<Rightarrow> close_match_groups unmatched_company portal buffer_size gstins st')
         else close_match_groups unmatched_company portal buffer_size gstins st)"

section \<open>match_invoices\<close>

text \<open>Lines 135-141: the dictionary of a company row left unmatched.\<close>

definition unmatched_record :: "company_row \<Rightarrow> unmatched_record" where
  "unmatched_record c =
     \<lparr>u_GSTIN = c_GSTIN_of_supplier c,
      u_Party_Name = c_Party_Name c,
      u_Invoice_No = c_Invoice_No c,
      u_Invoice_Date = strftime_dmY (c_Invoice_Date c),
      u_Firm_Total = c_Total c\<rparr>"

text \<open>
  Lines 77-143 on the rows of the two frames: the value returned, or the exception
  raised. \<^verbatim>\<open>Date_Str\<close> of a company row is the value assigned at line 75.
\<close>

definition match_rows ::
  "company_row list \<Rightarrow> portal_row list \<Rightarrow> rat \<Rightarrow>
   error + (matched_record list \<times> unmatched_record list)" where
  "match_rows company portal buffer_size =
     (let merged = exact_matches company portal;
          matched_records = map exact_record merged;
          st0 = \<lparr>close_matched_records = [],
                 matched_invoices = set (map (\<lambda>row. c_Invoice_No (fst row)) merged)\<rparr>;
          unmatched_company = filter (\<lambda>c. c_Invoice_No c \<notin> matched_invoices st0) company
      in case (if buffer_size > 0 then
                 close_match_groups unmatched_company portal buffer_size
                   (unique (map c_GSTIN_of_supplier unmatched_company)) st0
               else Inr st0) of
           Inl e \<Rightarrow> Inl e
         | Inr st \<Rightarrow>
             Inr (matched_records @ close_matched_records st,
                  map unmatched_record
                    (filter (\<lambda>c. c_Invoice_No c \<notin> matched_invoices st) company)))"

text \<open>
  \<^verbatim>\<open>match_invoices\<close> (lines 71-143): the three column assignments on the frames of the
  caller, then the matching. The result is the value returned or the exception raised,
  together with the two frames as the call leaves them.
\<close>

definition match_invoices ::
  "company_df \<Rightarrow> portal_df \<Rightarrow> rat \<Rightarrow>
   (error + (matched_record list \<times> unmatched_record list)) \<times> company_df \<times> portal_df" where
  "match_invoices company_df portal_df buffer_size =
     (let company_df1 = company_df
            \<lparr>company_Clean_Invoice :=
               Some (map (\<lambda>c. clean_invoice (c_Invoice_No c)) (company_rows company_df))\<rparr>;
          portal_df1 = portal_df
            \<lparr>portal_Clean_Invoice :=
               Some (map (\<lambda>p. clean_invoice (p_Invoice_number p)) (portal_rows portal_df))\<rparr>;
          company_df2 = company_df1
            \<lparr>company_Date_Str :=
               Some (map (\<lambda>c. strftime_dmY (c_Invoice_Date c)) (company_rows company_df1))\<rparr>
      in (match_rows (company_rows company_df2) (portal_rows portal_df1) buffer_size,
          company_df2, portal_df1))"

section \<open>The three buckets of the specification\<close>

text \<open>
  The outputs are dictionaries, not rows. A matched dictionary is \<^emph>\<open>of\<close> a company row
  when the six values copied from the company frame are those of the row; an unmatched
  dictionary is of a company row when it is the dictionary line 135 builds from it. A
  company row is in the Exact bucket when a dictionary with status Exact is of it, and
  likewise for Close and Unmatched.
\<close>

definition matched_of :: "company_row \<Rightarrow> matched_record \<Rightarrow> bool" where
  "matched_of c r \<longleftrightarrow>
     GSTIN r = c_GSTIN_of_supplier c \<and> Party_Name r = c_Party_Name c \<and>
     Accounting_Document_No r = c_Accounting_Document_No c \<and>
     Invoice_No r = c_Invoice_No c \<and> Invoice_Date r = strftime_dmY (c_Invoice_Date c) \<and>
     Firm_Total r = c_Total c"

definition in_exact :: "company_row \<Rightarrow> matched_record list \<Rightarrow> bool" where
  "in_exact c matched \<longleftrightarrow> (\<exists>r \<in> set matched. Match_Status r = Exact \<and> matched_of c r)"

definition in_close :: "company_row \<Rightarrow> matched_record list \<Rightarrow> bool" where
  "in_close c matched \<longleftrightarrow> (\<exists>r \<in> set matched. Match_Status r = Close \<and> matched_of c r)"

definition in_unmatched :: "company_row \<Rightarrow> unmatched_record list \<Rightarrow> bool" where
  "in_unmatched c unmatched \<longleftrightarrow> unmatched_record c \<in> set unmatched"

definition classified_once :: "company_row \<Rightarrow> matched_record list \<times> unmatched_record list \<Rightarrow> bool" where
  "classified_once c out \<longleftrightarrow>
     (in_exact c (fst out) \<and> \<not> in_close c (fst out) \<and> \<not> in_unmatched c (snd out)) \<or>
     (\<not> in_exact c (fst out) \<and> in_close c (fst out) \<and> \<not> in_unmatched c (snd out)) \<or>
     (\<not> in_exact c (fst out) \<and> \<not> in_close c (fst out) \<and> in_unmatched c (snd out))"

definition partition_property :: "company_row list \<Rightarrow> matched_record list \<times> unmatched_record list \<Rightarrow> bool" where
  "partition_property company out \<longleftrightarrow>
     (\<forall>c \<in> set company. classified_once c out) \<and>
     (\<forall>r \<in> set (fst out). \<exists>c \<in> set company. matched_of c r) \<and>
     (\<forall>x \<in> set (snd out). \<exists>c \<in> set company. x = unmatched_record c)"

section \<open>Frames used as concrete inputs\<close>

text \<open>
  The company and portal records of the examples of the specification (section 8): CGST
  100, SGST 100, IGST 0 on the company side, the same date on both sides. A frame as
  \<^verbatim>\<open>load_data\<close> returns it has no derived column yet.
\<close>

definition example_date :: date where
  "example_date = \<lparr>day = 15, month = 1, year = 2024\<rparr>"

definition company_example :: "string \<Rightarrow> string \<Rightarrow> company_row" where
  "company_example gstin invoice_no =
     \<lparr>c_GSTIN_of_supplier = gstin, c_Party_Name = ''Acme Traders'',
      c_Accounting_Document_No = ''5100001'', c_Invoice_No = invoice_no,
      c_Invoice_Date = example_date, c_CGST_Amount = 100, c_SGST_Amount = 100,
      c_IGST_Amount = 0, c_Total = 200\<rparr>"

definition portal_example :: "string \<Rightarrow> string \<Rightarrow> rat \<Rightarrow> portal_row" where
  "portal_example gstin invoice_number cgst =
     \<lparr>p_GSTIN_of_supplier = gstin, p_Invoice_number = invoice_number,
      p_Invoice_Date = example_date, p_Central_Tax = cgst, p_State_UT_Tax = 100,
      p_Integrated_Tax = 0, p_Total = cgst + 100\<rparr>"

definition loaded_company :: "company_row list \<Rightarrow> company_df" where
  "loaded_company rows = \<lparr>company_rows = rows, company_Clean_Invoice = None, company_Date_Str = None\<rparr>"

definition loaded_portal :: "portal_row list \<Rightarrow> portal_df" where
  "loaded_portal rows = \<lparr>portal_rows = rows, portal_Clean_Invoice = None\<rparr>"

text \<open>
  Amounts that are not whole: the float64 cells that hold 0.1 and 1000.3 (a company
  record with CGST 0.1 and a portal record with central tax 1000.3, no other tax).
\<close>

definition double_0_1 :: rat where
  "double_0_1 = 3602879701896397 / 2 ^ 55"

definition double_1000_3 :: rat where
  "double_1000_3 = 8798731850114662 / 2 ^ 43"

definition company_small :: company_row where
  "company_small =
     (company_example ''27ABCDE1234F1Z5'' ''INV/001'')
       \<lparr>c_CGST_Amount := double_0_1, c_SGST_Amount := 0, c_Total := double_0_1\<rparr>"

definition portal_large :: portal_row where
  "portal_large =
     (portal_example ''27ABCDE1234F1Z5'' ''INV-001'' double_1000_3)
       \<lparr>p_State_UT_Tax := 0, p_Total := double_1000_3\<rparr>"

lemmas example_defs = company_example_def portal_example_def loaded_company_def loaded_portal_def
  example_date_def

section \<open>Facts about the float64 subtraction\<close>

lemma binade_bounds:
  assumes "0 < x"
  shows "2 powi binade x \<le> x" and "x < 2 powi (binade x + 1)"
proof -
  show "2 powi binade x \<le> x"
  proof (cases "1 \<le> x")
    case True
    then have n: "0 < \<lfloor>x\<rfloor>" by simp
    from bitlen_bounds [OF n] have "2 ^ nat (bitlen \<lfloor>x\<rfloor> - 1) \<le> \<lfloor>x\<rfloor>" by simp
    then have "(of_int (2 ^ nat (bitlen \<lfloor>x\<rfloor> - 1)) :: rat) \<le> of_int \<lfloor>x\<rfloor>"
      by (simp only: of_int_le_iff)
    also have "\<dots> \<le> x" by simp
    finally have "(2 :: rat) ^ nat (bitlen \<lfloor>x\<rfloor> - 1) \<le> x" by simp
    moreover have "1 \<le> bitlen \<lfloor>x\<rfloor>"
      using n bitlen_eq_zero_iff [of "\<lfloor>x\<rfloor>"] bitlen_nonneg [of "\<lfloor>x\<rfloor>"] by linarith
    ultimately show ?thesis
      using True by (simp add: binade_def power_int_def)
  next
    case False
    let ?c = "\<lceil>1 / x\<rceil>"
    from False assms have y: "1 < 1 / x" by simp
    then have c: "0 < ?c - 1" by (simp add: less_ceiling_iff)
    from bitlen_bounds [OF c] have "?c - 1 < 2 ^ nat (bitlen (?c - 1))" by simp
    then have "?c \<le> 2 ^ nat (bitlen (?c - 1))" by simp
    then have "(of_int ?c :: rat) \<le> of_int (2 ^ nat (bitlen (?c - 1)))"
      by (simp only: of_int_le_iff)
    moreover have "1 / x \<le> of_int ?c"
      by (rule le_of_int_ceiling)
    ultimately have "1 / x \<le> of_int (2 ^ nat (bitlen (?c - 1)))"
      by (rule order_trans [rotated])
    then have "1 / x \<le> 2 ^ nat (bitlen (?c - 1))"
      by simp
    then have "1 / 2 ^ nat (bitlen (?c - 1)) \<le> x"
      using assms by (simp add: field_simps)
    moreover have "1 \<le> bitlen (?c - 1)"
      using c bitlen_eq_zero_iff [of "?c - 1"] bitlen_nonneg [of "?c - 1"] by linarith
    ultimately show ?thesis
      using False by (simp add: binade_def power_int_def inverse_eq_divide power_one_over)
  qed
  show "x < 2 powi (binade x + 1)"
  proof (cases "1 \<le> x")
    case True
    then have n: "0 < \<lfloor>x\<rfloor>" by simp
    from bitlen_bounds [OF n] have "\<lfloor>x\<rfloor> < 2 ^ nat (bitlen \<lfloor>x\<rfloor>)" by simp
    then have "\<lfloor>x\<rfloor> + 1 \<le> 2 ^ nat (bitlen \<lfloor>x\<rfloor>)" by simp
    then have "(of_int (\<lfloor>x\<rfloor> + 1) :: rat) \<le> of_int (2 ^ nat (bitlen \<lfloor>x\<rfloor>))"
      by (simp only: of_int_le_iff)
    moreover have "x < of_int (\<lfloor>x\<rfloor> + 1)"
      using floor_correct [of x] by blast
    ultimately have "x < 2 ^ nat (bitlen \<lfloor>x\<rfloor>)" by simp
    then show ?thesis
      using True bitlen_nonneg [of "\<lfloor>x\<rfloor>"] by (simp add: binade_def power_int_def)
  next
    case False
    let ?c = "\<lceil>1 / x\<rceil>"
    let ?j = "bitlen (?c - 1)"
    from False assms have y: "1 < 1 / x" by simp
    then have c: "0 < ?c - 1" by (simp add: less_ceiling_iff)
    have j: "1 \<le> ?j"
      using c bitlen_eq_zero_iff [of "?c - 1"] bitlen_nonneg [of "?c - 1"] by linarith
    from bitlen_bounds [OF c] have "2 ^ nat (?j - 1) \<le> ?c - 1" by simp
    then have "(of_int (2 ^ nat (?j - 1)) :: rat) \<le> of_int (?c - 1)"
      by (simp only: of_int_le_iff)
    moreover have "of_int (?c - 1) < 1 / x"
      using ceiling_correct [of "1 / x"] by simp
    ultimately have "2 ^ nat (?j - 1) < 1 / x" by simp
    then have lt: "x < 1 / 2 ^ nat (?j - 1)"
      using assms by (simp add: field_simps)
    have "binade x + 1 = - (?j - 1)"
      using False by (simp add: binade_def)
    moreover have "(2 :: rat) powi (- (?j - 1)) = 1 / 2 ^ nat (?j - 1)"
      using j by (simp add: power_int_minus_divide power_int_def power_one_over)
    ultimately show ?thesis
      using lt by simp
  qed
qed

lemma powi2_less_imp_less:
  assumes "(2 :: rat) powi m < 2 powi n"
  shows "m < n"
proof (rule ccontr)
  assume "\<not> m < n"
  then have "n \<le> m" by simp
  then have "(2 :: rat) powi n \<le> 2 powi m"
    by (rule power_int_increasing) simp
  with assms show False by simp
qed

lemma round_half_even_of_int: "round_half_even (of_int k) = k"
  by (simp add: round_half_even_def)

lemma round_half_even_nonneg: "0 \<le> n \<Longrightarrow> 0 \<le> round_half_even n"
  by (auto simp: round_half_even_def Let_def)

lemma round_half_even_error: "\<bar>of_int (round_half_even n) - n\<bar> \<le> 1 / 2"
proof -
  have "of_int \<lfloor>n\<rfloor> \<le> n" "n < of_int \<lfloor>n\<rfloor> + 1"
    using floor_correct [of n] by simp_all
  then show ?thesis
    by (auto simp: round_half_even_def Let_def abs_le_iff)
qed

lemma float64_neg_neg: "float64_neg (float64_neg d) = d"
  by (cases d) (simp_all add: float64_neg_def)

lemma float64_round_minus: "float64_round (- x) = float64_neg (float64_round x)"
  by (simp add: float64_round_def float64_neg_def Let_def)

lemma float64_round_nonneg:
  assumes "0 \<le> x"
  shows "float64_nonneg (float64_round x)"
proof (cases "x = 0")
  case True
  then show ?thesis by (simp add: float64_round_def float64_nonneg_def)
next
  case False
  with assms have pos: "0 < x" by simp
  let ?q = "(2 :: rat) powi (max (binade \<bar>x\<bar>) (- 1022) - 52)"
  have "0 < ?q" by simp
  then have "0 \<le> \<bar>x\<bar> / ?q" by simp
  then have "0 \<le> round_half_even (\<bar>x\<bar> / ?q)" by (rule round_half_even_nonneg)
  then have "0 \<le> of_int (round_half_even (\<bar>x\<bar> / ?q)) * ?q"
    using \<open>0 < ?q\<close> by simp
  then show ?thesis
    using pos by (simp add: float64_round_def float64_nonneg_def Let_def)
qed

lemma float64_round_exact:
  assumes m: "\<bar>m\<bar> < 2 ^ 53" and k: "- 1074 \<le> k" "k \<le> 971"
  shows "float64_round (of_int m * 2 powi k) = Finite (of_int m * 2 powi k)"
proof (cases "m = 0")
  case True
  then show ?thesis by (simp add: float64_round_def)
next
  case False
  define x :: rat where "x = of_int m * 2 powi k"
  define qe where "qe = max (binade \<bar>x\<bar>) (- 1022) - 52"
  define q :: rat where "q = 2 powi qe"
  have p: "0 < (2 :: rat) powi k" by simp
  have ax: "\<bar>x\<bar> = of_int \<bar>m\<bar> * 2 powi k"
    by (simp add: x_def abs_mult)
  have nz: "x \<noteq> 0" using False by (simp add: x_def)
  then have xpos: "0 < \<bar>x\<bar>" by simp
  have "(of_int \<bar>m\<bar> :: rat) < of_int (2 ^ 53)"
    using m by (simp only: of_int_less_iff)
  then have "\<bar>x\<bar> < 2 ^ 53 * 2 powi k"
    unfolding ax using p by simp
  also have "\<dots> = 2 powi (53 + k)"
    by (simp add: power_int_add)
  finally have up: "\<bar>x\<bar> < 2 powi (53 + k)" .
  have "2 powi binade \<bar>x\<bar> \<le> \<bar>x\<bar>"
    using binade_bounds(1) [OF xpos] .
  with up have "(2 :: rat) powi binade \<bar>x\<bar> < 2 powi (53 + k)" by simp
  then have "binade \<bar>x\<bar> < 53 + k"
    by (rule powi2_less_imp_less)
  then have qe: "qe \<le> k" using k by (simp add: qe_def)
  define j where "j = nat (k - qe)"
  have pk: "(2 :: rat) powi k = 2 ^ j * q"
  proof -
    have "k = int j + qe" using qe by (simp add: j_def)
    then have "(2 :: rat) powi k = 2 powi (int j + qe)" by simp
    also have "\<dots> = 2 powi (int j) * 2 powi qe" by (rule power_int_add) simp
    finally show ?thesis by (simp add: q_def)
  qed
  have qpos: "0 < q" by (simp add: q_def)
  have "\<bar>x\<bar> / q = of_int (\<bar>m\<bar> * 2 ^ j)"
    using qpos by (simp add: ax pk)
  then have r: "round_half_even (\<bar>x\<bar> / q) = \<bar>m\<bar> * 2 ^ j"
    by (simp only: round_half_even_of_int)
  have "of_int (round_half_even (\<bar>x\<bar> / q)) * q = of_int (\<bar>m\<bar> * 2 ^ j) * q"
    by (simp only: r)
  also have "\<dots> = \<bar>x\<bar>"
    by (simp add: ax pk)
  finally have y: "of_int (round_half_even (\<bar>x\<bar> / q)) * q = \<bar>x\<bar>" .
  have "\<bar>x\<bar> < 2 powi (53 + k)" by (rule up)
  also have "\<dots> \<le> 2 powi 1024"
    using k by (intro power_int_increasing) simp_all
  finally have lt: "\<bar>x\<bar> < 2 ^ 1024" by simp
  have "float64_round x =
      (if 2 ^ 1024 \<le> of_int (round_half_even (\<bar>x\<bar> / q)) * q
       then (if 0 < x then PosInf else NegInf)
       else Finite (if 0 < x then of_int (round_half_even (\<bar>x\<bar> / q)) * q
                    else - (of_int (round_half_even (\<bar>x\<bar> / q)) * q)))"
    using nz by (simp add: float64_round_def Let_def q_def qe_def)
  also have "\<dots> = Finite (if 0 < x then \<bar>x\<bar> else - \<bar>x\<bar>)"
    unfolding y using lt by simp
  also have "\<dots> = Finite x"
    by simp
  finally show ?thesis by (simp add: x_def)
qed

lemma float64_round_error:
  assumes z: "float64_round x = Finite z" and normal: "2 powi (- 1022) \<le> \<bar>x\<bar>"
  shows "\<bar>z - x\<bar> \<le> \<bar>x\<bar> / 2 ^ 53"
proof -
  define e where "e = binade \<bar>x\<bar>"
  define q :: rat where "q = 2 powi (e - 52)"
  define y :: rat where "y = of_int (round_half_even (\<bar>x\<bar> / q)) * q"
  have "0 < (2 :: rat) powi (- 1022)" by simp
  with normal have xpos: "0 < \<bar>x\<bar>" by linarith
  then have nz: "x \<noteq> 0" by simp
  have "(2 :: rat) powi (- 1022) < 2 powi (e + 1)"
    using normal binade_bounds(2) [OF xpos] by (simp add: e_def)
  then have "- 1022 < e + 1" by (rule powi2_less_imp_less)
  then have e: "max e (- 1022) = e" by simp
  have q: "0 < q" by (simp add: q_def)
  have "float64_round x =
      (if 2 ^ 1024 \<le> y then (if 0 < x then PosInf else NegInf)
       else Finite (if 0 < x then y else - y))"
    unfolding float64_round_def Let_def y_def q_def e_def
    using nz e [unfolded e_def] by (simp only: if_False)
  with z have zy: "z = (if 0 < x then y else - y)"
    by (simp split: if_splits)
  have "\<bar>of_int (round_half_even (\<bar>x\<bar> / q)) - \<bar>x\<bar> / q\<bar> \<le> 1 / 2"
    by (rule round_half_even_error)
  then have "\<bar>of_int (round_half_even (\<bar>x\<bar> / q)) - \<bar>x\<bar> / q\<bar> * q \<le> 1 / 2 * q"
    by (rule mult_right_mono) (use q in simp)
  moreover have "\<bar>of_int (round_half_even (\<bar>x\<bar> / q)) - \<bar>x\<bar> / q\<bar> * q = \<bar>y - \<bar>x\<bar>\<bar>"
  proof -
    have "\<bar>of_int (round_half_even (\<bar>x\<bar> / q)) - \<bar>x\<bar> / q\<bar> * q =
          \<bar>(of_int (round_half_even (\<bar>x\<bar> / q)) - \<bar>x\<bar> / q) * q\<bar>"
      using q by (simp add: abs_mult)
    also have "(of_int (round_half_even (\<bar>x\<bar> / q)) - \<bar>x\<bar> / q) * q = y - \<bar>x\<bar>"
      using q by (simp add: y_def field_simps)
    finally show ?thesis .
  qed
  ultimately have err: "\<bar>y - \<bar>x\<bar>\<bar> \<le> q / 2" by simp
  have "q = 2 powi e / 2 ^ 52"
    by (simp add: q_def power_int_diff)
  then have "q / 2 = 2 powi e / 2 ^ 53" by simp
  also have "\<dots> \<le> \<bar>x\<bar> / 2 ^ 53"
    using binade_bounds(1) [OF xpos] by (simp add: divide_right_mono e_def)
  finally have "q / 2 \<le> \<bar>x\<bar> / 2 ^ 53" .
  with err have bound: "\<bar>y - \<bar>x\<bar>\<bar> \<le> \<bar>x\<bar> / 2 ^ 53" by linarith
  have "\<bar>z - x\<bar> = \<bar>y - \<bar>x\<bar>\<bar>"
  proof (cases "0 < x")
    case True
    then show ?thesis by (simp add: zy)
  next
    case False
    then have "z - x = - (y - \<bar>x\<bar>)" by (simp add: zy)
    then show ?thesis by (simp only: abs_minus_cancel)
  qed
  with bound show ?thesis by simp
qed

lemma float64_sub_whole:
  assumes "\<bar>n\<bar> < 2 ^ 53" and "a - b = of_int n"
  shows "float64_sub a b = Finite (a - b)"
  using float64_round_exact [of n 0] assms by (simp add: float64_sub_def)

lemma float64_sub_swap: "float64_sub b a = float64_neg (float64_sub a b)"
  using float64_round_minus [of "a - b"] by (simp add: float64_sub_def)

lemma double_0_1_is_float64: "float64_round (1 / 10) = Finite double_0_1"
  by code_simp

lemma double_1000_3_is_float64: "float64_round (10003 / 10) = Finite double_1000_3"
  by code_simp

lemma float64_sub_example:
  "float64_sub double_1000_3 double_0_1 = Finite (8797852240812441 / 2 ^ 43)"
  by code_simp

lemma float64_sub_205_200: "float64_sub 205 200 = Finite 5"
  using float64_sub_whole [of 5 205 200] by simp

section \<open>Facts about the passes\<close>

lemma filter_dropWhile_not: "filter P (dropWhile (\<lambda>x. \<not> P x) xs) = filter P xs"
  by (induction xs) auto

lemma clean_invoice_filter: "clean_invoice s = filter alnum s"
  by (induction s rule: clean_invoice.induct) (auto simp: filter_dropWhile_not)

lemma getitem_Invoice_Date_x:
  "getitem (portal_columns rows) ''Invoice Date_x'' = Inl (KeyError ''Invoice Date_x'')"
  by (simp add: getitem_def portal_columns_def)

lemma close_match_row_raises:
  "close_match_row portal_subset buffer_size gstin company_row st = Inl (KeyError ''Invoice Date_x'')"
  by (simp add: close_match_row_def getitem_Invoice_Date_x)

lemma close_match_rows_cases:
  "close_match_rows portal_subset buffer_size gstin rows st =
     (if rows = [] then Inr st else Inl (KeyError ''Invoice Date_x''))"
  by (cases rows) (simp_all add: close_match_row_raises)

lemma close_match_groups_Inr:
  "close_match_groups unmatched_company portal buffer_size gstins st = Inr st' \<Longrightarrow> st' = st"
proof (induction gstins arbitrary: st)
  case Nil
  then show ?case by simp
next
  case (Cons g gs)
  then show ?case
    by (auto simp: Let_def close_match_rows_cases split: if_splits sum.splits)
qed

lemma close_match_groups_raises:
  assumes "g \<in> set gstins"
    and "filter (\<lambda>c. c_GSTIN_of_supplier c = g) unmatched_company \<noteq> []"
    and "filter (\<lambda>p. p_GSTIN_of_supplier p = g) portal \<noteq> []"
  shows "close_match_groups unmatched_company portal buffer_size gstins st =
           Inl (KeyError ''Invoice Date_x'')"
  using assms
proof (induction gstins arbitrary: st)
  case Nil
  then show ?case by simp
next
  case (Cons h hs)
  show ?case
  proof (cases "filter (\<lambda>c. c_GSTIN_of_supplier c = h) unmatched_company \<noteq> [] \<and>
                filter (\<lambda>p. p_GSTIN_of_supplier p = h) portal \<noteq> []")
    case True
    then show ?thesis by (simp add: Let_def close_match_rows_cases)
  next
    case False
    with Cons.prems have "g \<in> set hs" by auto
    with Cons have IH: "\<And>st. close_match_groups unmatched_company portal buffer_size hs st =
           Inl (KeyError ''Invoice Date_x'')" by blast
    from False show ?thesis
      by (auto simp: Let_def close_match_rows_cases IH)
  qed
qed

lemma set_unique: "set (unique xs) = set xs"
  by (induction xs rule: unique.induct) auto

lemma match_rows_no_close:
  "buffer_size \<le> 0 \<Longrightarrow>
   match_rows company portal buffer_size =
     Inr (map exact_record (exact_matches company portal),
          map unmatched_record
            (filter (\<lambda>c. c_Invoice_No c \<notin> (\<lambda>row. c_Invoice_No (fst row)) ` set (exact_matches company portal))
               company))"
  by (simp add: match_rows_def Let_def)

lemma match_rows_Inr:
  "match_rows company portal buffer_size = Inr out \<Longrightarrow>
   out = (map exact_record (exact_matches company portal),
          map unmatched_record
            (filter (\<lambda>c. c_Invoice_No c \<notin> (\<lambda>row. c_Invoice_No (fst row)) ` set (exact_matches company portal))
               company))"
  by (auto simp: match_rows_def Let_def split: if_splits sum.splits dest!: close_match_groups_Inr)

lemma fst_match_invoices:
  "fst (match_invoices company_df portal_df buffer_size) =
     match_rows (company_rows company_df) (portal_rows portal_df) buffer_size"
  by (simp add: match_invoices_def Let_def)

lemma set_exact_matches:
  "(c, p) \<in> set (exact_matches company portal) \<longleftrightarrow>
     c \<in> set company \<and> p \<in> set portal \<and>
     c_GSTIN_of_supplier c = p_GSTIN_of_supplier p \<and>
     clean_invoice (c_Invoice_No c) = clean_invoice (p_Invoice_number p)"
  by (auto simp: exact_matches_def)

lemma matched_of_exact_record: "matched_of c (exact_record (c, p))"
  by (simp add: matched_of_def exact_record_def)

lemma Match_Status_exact_record: "Match_Status (exact_record row) = Exact"
  by (cases row) (simp add: exact_record_def)

lemma Invoice_No_exact_record: "Invoice_No (exact_record row) = c_Invoice_No (fst row)"
  by (cases row) (simp add: exact_record_def)

lemma matched_of_Invoice_No: "matched_of c r \<Longrightarrow> Invoice_No r = c_Invoice_No c"
  by (simp add: matched_of_def)

lemma unmatched_record_Invoice_No:
  "unmatched_record c = unmatched_record c' \<Longrightarrow> c_Invoice_No c = c_Invoice_No c'"
  by (simp add: unmatched_record_def)

lemma match_invoices_Inr:
  assumes "fst (match_invoices company_df portal_df buffer_size) = Inr (matched, unmatched)"
  shows "matched = map exact_record (exact_matches (company_rows company_df) (portal_rows portal_df))"
    and "unmatched = map unmatched_record
            (filter (\<lambda>c. c_Invoice_No c \<notin>
                        (\<lambda>row. c_Invoice_No (fst row)) `
                          set (exact_matches (company_rows company_df) (portal_rows portal_df)))
               (company_rows company_df))"
  using match_rows_Inr [of "company_rows company_df" "portal_rows portal_df" buffer_size "(matched, unmatched)"] assms
  by (simp_all add: fst_match_invoices)

lemma match_rows_raises:
  assumes b: "0 < buffer_size"
    and c: "c \<in> set company"
    and un: "c_Invoice_No c \<notin> (\<lambda>row. c_Invoice_No (fst row)) ` set (exact_matches company portal)"
    and p: "p \<in> set portal"
    and g: "p_GSTIN_of_supplier p = c_GSTIN_of_supplier c"
  shows "match_rows company portal buffer_size = Inl (KeyError ''Invoice Date_x'')"
proof -
  let ?MI = "(\<lambda>row. c_Invoice_No (fst row)) ` set (exact_matches company portal)"
  let ?U = "filter (\<lambda>c. c_Invoice_No c \<notin> ?MI) company"
  have cU: "c \<in> set ?U"
    using c un by simp
  then have "c_GSTIN_of_supplier c \<in> set (unique (map c_GSTIN_of_supplier ?U))"
    unfolding set_unique by (simp del: set_filter)
  moreover have "filter (\<lambda>x. c_GSTIN_of_supplier x = c_GSTIN_of_supplier c) ?U \<noteq> []"
    using cU by (auto simp: filter_empty_conv)
  moreover have "filter (\<lambda>x. p_GSTIN_of_supplier x = c_GSTIN_of_supplier c) portal \<noteq> []"
    using p g by (auto simp: filter_empty_conv)
  ultimately have "close_match_groups ?U portal buffer_size (unique (map c_GSTIN_of_supplier ?U))
      \<lparr>close_matched_records = [], matched_invoices = ?MI\<rparr> = Inl (KeyError ''Invoice Date_x'')"
    by (rule close_match_groups_raises)
  then show ?thesis
    using b by (simp add: match_rows_def Let_def)
qed

section \<open>The claims\<close>

text \<open>
  C1: with a positive tolerance, a company row left unmatched by Pass 1 should become a
  close match of the first portal row of its GSTIN with the same date and a total within
  the tolerance. The code does not get there: line 112 reads the column
  \<^verbatim>\<open>Invoice Date_x\<close>, which the portal frame does not have, so the call raises
  \<^verbatim>\<open>KeyError\<close> as soon as Pass 2 meets a GSTIN with a portal row. The input is the
  example of the specification (INV/001 against INV-002, same GSTIN, date and total,
  tolerance 10), which should be classified Close.
\<close>

theorem close_pass_raises_KeyError:
  "fst (match_invoices (loaded_company [company_example ''27ABCDE1234F1Z5'' ''INV/001''])
          (loaded_portal [portal_example ''27ABCDE1234F1Z5'' ''INV-002'' 100]) 10) =
     Inl (KeyError ''Invoice Date_x'')"
proof -
  have "match_rows [company_example ''27ABCDE1234F1Z5'' ''INV/001'']
          [portal_example ''27ABCDE1234F1Z5'' ''INV-002'' 100] 10 =
        Inl (KeyError ''Invoice Date_x'')"
    by (rule match_rows_raises
          [where c = "company_example ''27ABCDE1234F1Z5'' ''INV/001''"
             and p = "portal_example ''27ABCDE1234F1Z5'' ''INV-002'' 100"])
       (simp_all add: exact_matches_def example_defs alnum_def)
  then show ?thesis
    by (simp add: fst_match_invoices loaded_company_def loaded_portal_def)
qed

text \<open>
  C2, as the specification states it: for every pair of input tables and every tolerance,
  each company record is in exactly one of the buckets Exact, Close and Unmatched. It
  fails when two company rows carry the same Invoice No: the matched invoices are kept
  as a set of Invoice No values (lines 100, 132), so the second row below, which has no
  counterpart, is dropped from the unmatched output although no dictionary is of it.
\<close>

theorem partition_fails_on_duplicate_invoice_no_counterexample:
  "fst (match_invoices
          (loaded_company [company_example ''27ABCDE1234F1Z5'' ''INV/001'',
                           company_example ''29PQRST5678K1Z2'' ''INV/001''])
          (loaded_portal [portal_example ''27ABCDE1234F1Z5'' ''INV-001'' 100]) 0) =
     Inr ([exact_record (company_example ''27ABCDE1234F1Z5'' ''INV/001'',
                         portal_example ''27ABCDE1234F1Z5'' ''INV-001'' 100)], []) \<and>
   \<not> partition_property
       [company_example ''27ABCDE1234F1Z5'' ''INV/001'',
        company_example ''29PQRST5678K1Z2'' ''INV/001'']
       ([exact_record (company_example ''27ABCDE1234F1Z5'' ''INV/001'',
                       portal_example ''27ABCDE1234F1Z5'' ''INV-001'' 100)], [])"
proof -
  have "\<not> classified_once (company_example ''29PQRST5678K1Z2'' ''INV/001'')
       ([exact_record (company_example ''27ABCDE1234F1Z5'' ''INV/001'',
                       portal_example ''27ABCDE1234F1Z5'' ''INV-001'' 100)], [])"
    by (simp add: classified_once_def in_exact_def in_close_def in_unmatched_def matched_of_def
        exact_record_def example_defs)
  then have "\<not> partition_property
       [company_example ''27ABCDE1234F1Z5'' ''INV/001'',
        company_example ''29PQRST5678K1Z2'' ''INV/001'']
       ([exact_record (company_example ''27ABCDE1234F1Z5'' ''INV/001'',
                       portal_example ''27ABCDE1234F1Z5'' ''INV-001'' 100)], [])"
    by (simp add: partition_property_def)
  moreover have "fst (match_invoices
          (loaded_company [company_example ''27ABCDE1234F1Z5'' ''INV/001'',
                           company_example ''29PQRST5678K1Z2'' ''INV/001''])
          (loaded_portal [portal_example ''27ABCDE1234F1Z5'' ''INV-001'' 100]) 0) =
     Inr ([exact_record (company_example ''27ABCDE1234F1Z5'' ''INV/001'',
                         portal_example ''27ABCDE1234F1Z5'' ''INV-001'' 100)], [])"
    by (simp add: match_invoices_def match_rows_def exact_matches_def example_defs alnum_def)
  ultimately show ?thesis by simp
qed

text \<open>
  C2, amended: when the Invoice No values of the company table are pairwise distinct
  (the assumption section 4.2 of the specification makes) and the call returns its
  result, every company row is in exactly one of the three buckets, and every
  dictionary of the two output lists is of some company row.
\<close>

theorem partition_distinct_invoice_no:
  assumes d: "distinct (map c_Invoice_No (company_rows company_df))"
    and r: "fst (match_invoices company_df portal_df buffer_size) = Inr out"
  shows "partition_property (company_rows company_df) out"
proof -
  let ?C = "company_rows company_df"
  let ?E = "exact_matches ?C (portal_rows portal_df)"
  let ?MI = "(\<lambda>row. c_Invoice_No (fst row)) ` set ?E"
  obtain matched unmatched where out: "out = (matched, unmatched)"
    by (cases out)
  have m: "matched = map exact_record ?E"
    and u: "unmatched = map unmatched_record (filter (\<lambda>c. c_Invoice_No c \<notin> ?MI) ?C)"
    using match_invoices_Inr [OF r [unfolded out]] by simp_all
  have inj: "c = c'" if "c \<in> set ?C" "c' \<in> set ?C" "c_Invoice_No c = c_Invoice_No c'" for c c'
    using d that by (auto simp: distinct_map inj_on_def)
  have E_company: "fst row \<in> set ?C" if "row \<in> set ?E" for row
    using that set_exact_matches [of "fst row" "snd row" ?C "portal_rows portal_df"] by simp
  have no_close: "\<not> in_close c matched" for c
    by (auto simp: in_close_def m Match_Status_exact_record)
  have exact_iff: "in_exact c matched \<longleftrightarrow> c_Invoice_No c \<in> ?MI" if c: "c \<in> set ?C" for c
  proof
    assume "in_exact c matched"
    then obtain row where "row \<in> set ?E" "matched_of c (exact_record row)"
      by (auto simp: in_exact_def m)
    then have "c_Invoice_No c = c_Invoice_No (fst row)" "row \<in> set ?E"
      using matched_of_Invoice_No [of c "exact_record row"]
      by (simp_all add: Invoice_No_exact_record)
    then show "c_Invoice_No c \<in> ?MI"
      by (rule image_eqI)
  next
    assume "c_Invoice_No c \<in> ?MI"
    then obtain row where row: "row \<in> set ?E" "c_Invoice_No c = c_Invoice_No (fst row)"
      by auto
    then have "fst row = c"
      using inj [OF c E_company [OF row(1)]] by simp
    then have "exact_record (c, snd row) \<in> set matched"
      using row(1) by (auto simp: m intro!: image_eqI [where x = row])
    then show "in_exact c matched"
      using matched_of_exact_record [of c "snd row"]
        Match_Status_exact_record [of "(c, snd row)"]
      unfolding in_exact_def by blast
  qed
  have unmatched_iff: "in_unmatched c unmatched \<longleftrightarrow> c_Invoice_No c \<notin> ?MI" if c: "c \<in> set ?C" for c
  proof
    assume "in_unmatched c unmatched"
    then obtain c' where c': "c' \<in> set ?C" "c_Invoice_No c' \<notin> ?MI"
        "unmatched_record c = unmatched_record c'"
      by (auto simp: in_unmatched_def u)
    then show "c_Invoice_No c \<notin> ?MI"
      using unmatched_record_Invoice_No [OF c'(3)] by simp
  next
    assume "c_Invoice_No c \<notin> ?MI"
    then show "in_unmatched c unmatched"
      using c by (auto simp: in_unmatched_def u)
  qed
  have once: "\<forall>c \<in> set ?C. classified_once c out"
    using exact_iff unmatched_iff no_close by (auto simp: classified_once_def out)
  have of_m: "\<forall>r \<in> set (fst out). \<exists>c \<in> set ?C. matched_of c r"
  proof
    fix r assume "r \<in> set (fst out)"
    then obtain row where row: "row \<in> set ?E" "r = exact_record row"
      by (auto simp: out m)
    then have "matched_of (fst row) r"
      using matched_of_exact_record [of "fst row" "snd row"] by simp
    then show "\<exists>c \<in> set ?C. matched_of c r"
      using E_company [OF row(1)] by blast
  qed
  have of_u: "\<forall>x \<in> set (snd out). \<exists>c \<in> set ?C. x = unmatched_record c"
    by (auto simp: out u)
  show ?thesis
    using once of_m of_u by (simp add: partition_property_def)
qed

theorem partition_distinct_invoice_no_witness:
  "distinct (map c_Invoice_No
      [company_example ''27ABCDE1234F1Z5'' ''INV/001'',
       company_example ''27ABCDE1234F1Z5'' ''INV/003'']) \<and>
   fst (match_invoices
          (loaded_company [company_example ''27ABCDE1234F1Z5'' ''INV/001'',
                           company_example ''27ABCDE1234F1Z5'' ''INV/003''])
          (loaded_portal [portal_example ''27ABCDE1234F1Z5'' ''INV-001'' 105]) 0) =
     Inr ([exact_record (company_example ''27ABCDE1234F1Z5'' ''INV/001'',
                         portal_example ''27ABCDE1234F1Z5'' ''INV-001'' 105)],
          [unmatched_record (company_example ''27ABCDE1234F1Z5'' ''INV/003'')]) \<and>
   partition_property
     [company_example ''27ABCDE1234F1Z5'' ''INV/001'',
      company_example ''27ABCDE1234F1Z5'' ''INV/003'']
     ([exact_record (company_example ''27ABCDE1234F1Z5'' ''INV/001'',
                     portal_example ''27ABCDE1234F1Z5'' ''INV-001'' 105)],
      [unmatched_record (company_example ''27ABCDE1234F1Z5'' ''INV/003'')])"
proof -
  have d: "distinct (map c_Invoice_No (company_rows
      (loaded_company [company_example ''27ABCDE1234F1Z5'' ''INV/001'',
       company_example ''27ABCDE1234F1Z5'' ''INV/003''])))"
    by (simp add: example_defs)
  have r: "fst (match_invoices
          (loaded_company [company_example ''27ABCDE1234F1Z5'' ''INV/001'',
                           company_example ''27ABCDE1234F1Z5'' ''INV/003''])
          (loaded_portal [portal_example ''27ABCDE1234F1Z5'' ''INV-001'' 105]) 0) =
     Inr ([exact_record (company_example ''27ABCDE1234F1Z5'' ''INV/001'',
                         portal_example ''27ABCDE1234F1Z5'' ''INV-001'' 105)],
          [unmatched_record (company_example ''27ABCDE1234F1Z5'' ''INV/003'')])"
    by (simp add: match_invoices_def match_rows_def exact_matches_def example_defs alnum_def)
  show ?thesis
    using d r partition_distinct_invoice_no [OF d r]
    by (simp add: loaded_company_def)
qed

text \<open>
  C3, as the specification states it: a negative tolerance is rejected with an
  InvalidArgument error before any matching, and no output is produced. The code has no
  such check: at tolerance \<open>-1\<close> the call returns the exact match of the example.
\<close>

theorem negative_tolerance_not_rejected_counterexample:
  "fst (match_invoices (loaded_company [company_example ''27ABCDE1234F1Z5'' ''INV/001''])
     (loaded_portal [portal_example ''27ABCDE1234F1Z5'' ''INV-001'' 105]) (- 1)) =
   Inr ([exact_record (company_example ''27ABCDE1234F1Z5'' ''INV/001'',
                       portal_example ''27ABCDE1234F1Z5'' ''INV-001'' 105)], [])"
  by (simp add: match_invoices_def match_rows_def exact_matches_def example_defs alnum_def)

text \<open>
  C3, amended: a call with a negative tolerance is not rejected. It raises nothing and
  returns the dictionaries of the inner join of Pass 1 as the matched list, and the
  company rows whose Invoice No is not among the joined ones as the unmatched list.
\<close>

theorem negative_tolerance_runs_pass_1:
  assumes "buffer_size < 0"
  shows "fst (match_invoices company_df portal_df buffer_size) =
     Inr (map exact_record (exact_matches (company_rows company_df) (portal_rows portal_df)),
          map unmatched_record
            (filter (\<lambda>c. c_Invoice_No c \<notin>
                        (\<lambda>row. c_Invoice_No (fst row)) `
                          set (exact_matches (company_rows company_df) (portal_rows portal_df)))
               (company_rows company_df)))"
  using assms by (simp add: fst_match_invoices match_rows_no_close)

theorem negative_tolerance_runs_pass_1_witness:
  "(- 1 :: rat) < 0 \<and>
   fst (match_invoices (loaded_company [company_example ''27ABCDE1234F1Z5'' ''INV/001'',
                                        company_example ''27ABCDE1234F1Z5'' ''INV/003''])
     (loaded_portal [portal_example ''27ABCDE1234F1Z5'' ''INV-001'' 105]) (- 1)) =
   Inr ([exact_record (company_example ''27ABCDE1234F1Z5'' ''INV/001'',
                       portal_example ''27ABCDE1234F1Z5'' ''INV-001'' 105)],
        [unmatched_record (company_example ''27ABCDE1234F1Z5'' ''INV/003'')])"
proof -
  have h: "(- 1 :: rat) < 0" by simp
  show ?thesis
    using h negative_tolerance_runs_pass_1 [OF h,
      of "loaded_company [company_example ''27ABCDE1234F1Z5'' ''INV/001'',
                          company_example ''27ABCDE1234F1Z5'' ''INV/003'']"
         "loaded_portal [portal_example ''27ABCDE1234F1Z5'' ''INV-001'' 105]"]
    by (simp add: exact_matches_def example_defs alnum_def)
qed

text \<open>
  C4: the cleaned invoice number is the raw one without its characters outside
  \<^verbatim>\<open>[0-9a-zA-Z]\<close>; a company row and a portal row are paired by Pass 1 exactly when
  they have the same GSTIN and the same cleaned invoice number, whatever their dates and
  amounts; the dictionaries with status Exact of a returned result are those of these
  pairs, in the order of the join; and a call with a tolerance that is not positive
  returns them.
\<close>

theorem exact_match_iff_same_key:
  "clean_invoice s = filter alnum s \<and>
   ((c, p) \<in> set (exact_matches (company_rows company_df) (portal_rows portal_df)) \<longleftrightarrow>
      c \<in> set (company_rows company_df) \<and> p \<in> set (portal_rows portal_df) \<and>
      c_GSTIN_of_supplier c = p_GSTIN_of_supplier p \<and>
      filter alnum (c_Invoice_No c) = filter alnum (p_Invoice_number p)) \<and>
   (fst (match_invoices company_df portal_df buffer_size) = Inr (matched, unmatched) \<longrightarrow>
      filter (\<lambda>r. Match_Status r = Exact) matched =
        map exact_record (exact_matches (company_rows company_df) (portal_rows portal_df))) \<and>
   (buffer_size \<le> 0 \<longrightarrow>
      (\<exists>unmatched'. fst (match_invoices company_df portal_df buffer_size) =
         Inr (map exact_record (exact_matches (company_rows company_df) (portal_rows portal_df)),
              unmatched')))"
proof -
  have "filter (\<lambda>r. Match_Status r = Exact) (map exact_record rows) = map exact_record rows" for rows
    by (induction rows) (simp_all add: Match_Status_exact_record)
  then have "fst (match_invoices company_df portal_df buffer_size) = Inr (matched, unmatched) \<longrightarrow>
      filter (\<lambda>r. Match_Status r = Exact) matched =
        map exact_record (exact_matches (company_rows company_df) (portal_rows portal_df))"
    by (auto dest!: match_invoices_Inr(1))
  moreover have "buffer_size \<le> 0 \<longrightarrow>
      (\<exists>unmatched'. fst (match_invoices company_df portal_df buffer_size) =
         Inr (map exact_record (exact_matches (company_rows company_df) (portal_rows portal_df)),
              unmatched'))"
    by (simp add: fst_match_invoices match_rows_no_close)
  ultimately show ?thesis
    by (simp add: clean_invoice_filter set_exact_matches)
qed

theorem exact_match_iff_same_key_witness:
  "clean_invoice ''INV/001'' = ''INV001'' \<and> clean_invoice ''INV-001'' = ''INV001'' \<and>
   (company_example ''27ABCDE1234F1Z5'' ''INV/001'', portal_example ''27ABCDE1234F1Z5'' ''INV-001'' 105)
     \<in> set (exact_matches [company_example ''27ABCDE1234F1Z5'' ''INV/001'']
                [portal_example ''27ABCDE1234F1Z5'' ''INV-001'' 105]) \<and>
   fst (match_invoices (loaded_company [company_example ''27ABCDE1234F1Z5'' ''INV/001''])
          (loaded_portal [portal_example ''27ABCDE1234F1Z5'' ''INV-001'' 105]) 0) =
     Inr ([exact_record (company_example ''27ABCDE1234F1Z5'' ''INV/001'',
                         portal_example ''27ABCDE1234F1Z5'' ''INV-001'' 105)], []) \<and>
   filter (\<lambda>r. Match_Status r = Exact)
     [exact_record (company_example ''27ABCDE1234F1Z5'' ''INV/001'',
                    portal_example ''27ABCDE1234F1Z5'' ''INV-001'' 105)] =
     map exact_record (exact_matches [company_example ''27ABCDE1234F1Z5'' ''INV/001'']
                         [portal_example ''27ABCDE1234F1Z5'' ''INV-001'' 105]) \<and>
   Difference (exact_record (company_example ''27ABCDE1234F1Z5'' ''INV/001'',
                             portal_example ''27ABCDE1234F1Z5'' ''INV-001'' 105)) = Finite 5"
proof -
  have r: "fst (match_invoices (loaded_company [company_example ''27ABCDE1234F1Z5'' ''INV/001''])
          (loaded_portal [portal_example ''27ABCDE1234F1Z5'' ''INV-001'' 105]) 0) =
     Inr ([exact_record (company_example ''27ABCDE1234F1Z5'' ''INV/001'',
                         portal_example ''27ABCDE1234F1Z5'' ''INV-001'' 105)], [])"
    by (simp add: match_invoices_def match_rows_def exact_matches_def example_defs alnum_def)
  have k: "filter alnum ''INV/001'' = ''INV001''" "filter alnum ''INV-001'' = ''INV001''"
    by (simp_all add: alnum_def)
  have t: "Difference (exact_record (company_example ''27ABCDE1234F1Z5'' ''INV/001'',
                             portal_example ''27ABCDE1234F1Z5'' ''INV-001'' 105)) = Finite 5"
    by (simp add: exact_record_def example_defs float64_sub_205_200)
  show ?thesis
    using r k t
      exact_match_iff_same_key [of "''INV/001''"
        "company_example ''27ABCDE1234F1Z5'' ''INV/001''"
        "portal_example ''27ABCDE1234F1Z5'' ''INV-001'' 105"
        "loaded_company [company_example ''27ABCDE1234F1Z5'' ''INV/001'']"
        "loaded_portal [portal_example ''27ABCDE1234F1Z5'' ''INV-001'' 105]" 0
        "[exact_record (company_example ''27ABCDE1234F1Z5'' ''INV/001'',
                         portal_example ''27ABCDE1234F1Z5'' ''INV-001'' 105)]" "[]"]
      exact_match_iff_same_key [of "''INV-001''"
        "company_example ''27ABCDE1234F1Z5'' ''INV/001''"
        "portal_example ''27ABCDE1234F1Z5'' ''INV-001'' 105"
        "loaded_company [company_example ''27ABCDE1234F1Z5'' ''INV/001'']"
        "loaded_portal [portal_example ''27ABCDE1234F1Z5'' ''INV-001'' 105]" 0
        "[exact_record (company_example ''27ABCDE1234F1Z5'' ''INV/001'',
                         portal_example ''27ABCDE1234F1Z5'' ''INV-001'' 105)]" "[]"]
    by (simp add: example_defs)
qed

text \<open>
  C5: raising the tolerance should never lose a matched record. On the input below the
  call with tolerance 0 returns the exact match of INV/001; the call with tolerance 10
  returns nothing, since the second company row takes Pass 2 to the read of line 112
  and the call raises \<^verbatim>\<open>KeyError\<close>.
\<close>

theorem larger_tolerance_loses_exact_match:
  "fst (match_invoices
          (loaded_company [company_example ''27ABCDE1234F1Z5'' ''INV/001'',
                           company_example ''27ABCDE1234F1Z5'' ''INV/003''])
          (loaded_portal [portal_example ''27ABCDE1234F1Z5'' ''INV-001'' 105]) 0) =
     Inr ([exact_record (company_example ''27ABCDE1234F1Z5'' ''INV/001'',
                         portal_example ''27ABCDE1234F1Z5'' ''INV-001'' 105)],
          [unmatched_record (company_example ''27ABCDE1234F1Z5'' ''INV/003'')]) \<and>
   fst (match_invoices
          (loaded_company [company_example ''27ABCDE1234F1Z5'' ''INV/001'',
                           company_example ''27ABCDE1234F1Z5'' ''INV/003''])
          (loaded_portal [portal_example ''27ABCDE1234F1Z5'' ''INV-001'' 105]) 10) =
     Inl (KeyError ''Invoice Date_x'')"
proof -
  have "match_rows [company_example ''27ABCDE1234F1Z5'' ''INV/001'',
                    company_example ''27ABCDE1234F1Z5'' ''INV/003'']
          [portal_example ''27ABCDE1234F1Z5'' ''INV-001'' 105] 10 =
        Inl (KeyError ''Invoice Date_x'')"
    by (rule match_rows_raises
          [where c = "company_example ''27ABCDE1234F1Z5'' ''INV/003''"
             and p = "portal_example ''27ABCDE1234F1Z5'' ''INV-001'' 105"])
       (simp_all add: exact_matches_def example_defs alnum_def)
  moreover have "match_rows [company_example ''27ABCDE1234F1Z5'' ''INV/001'',
                    company_example ''27ABCDE1234F1Z5'' ''INV/003'']
          [portal_example ''27ABCDE1234F1Z5'' ''INV-001'' 105] 0 =
     Inr ([exact_record (company_example ''27ABCDE1234F1Z5'' ''INV/001'',
                         portal_example ''27ABCDE1234F1Z5'' ''INV-001'' 105)],
          [unmatched_record (company_example ''27ABCDE1234F1Z5'' ''INV/003'')])"
    by (simp add: match_rows_no_close exact_matches_def example_defs alnum_def)
  ultimately show ?thesis
    by (simp add: fst_match_invoices loaded_company_def loaded_portal_def)
qed

text \<open>
  C6, as the specification states it: for every matched record the reported Difference
  equals the portal total minus the company total exactly. Lines 95 and 126 subtract
  float64 cells, and the subtraction rounds. For a company total 0.1 and a portal
  total 1000.3 with the same key the call returns an Exact record whose Difference is
  the float64 value 1000.1999999999999..., not the difference of the two totals it
  reports.
\<close>

theorem difference_not_exact_counterexample:
  "fst (match_invoices (loaded_company [company_small]) (loaded_portal [portal_large]) 0) =
     Inr ([exact_record (company_small, portal_large)], []) \<and>
   Firm_Total (exact_record (company_small, portal_large)) = double_0_1 \<and>
   Portal_Total (exact_record (company_small, portal_large)) = double_1000_3 \<and>
   Difference (exact_record (company_small, portal_large)) =
     Finite (8797852240812441 / 2 ^ 43) \<and>
   Difference (exact_record (company_small, portal_large)) \<noteq>
     Finite (Portal_Total (exact_record (company_small, portal_large)) -
             Firm_Total (exact_record (company_small, portal_large)))"
proof -
  have r: "match_rows [company_small] [portal_large] 0 =
      Inr ([exact_record (company_small, portal_large)], [])"
    by (simp add: match_rows_no_close exact_matches_def company_small_def portal_large_def
        example_defs alnum_def)
  have t: "Firm_Total (exact_record (company_small, portal_large)) = double_0_1"
    "Portal_Total (exact_record (company_small, portal_large)) = double_1000_3"
    by (simp_all add: exact_record_def company_small_def portal_large_def)
  have d: "Difference (exact_record (company_small, portal_large)) =
      Finite (8797852240812441 / 2 ^ 43)"
    by (simp add: exact_record_def company_small_def portal_large_def float64_sub_example)
  have n: "(8797852240812441 / 2 ^ 43 :: rat) \<noteq> double_1000_3 - double_0_1"
    by (simp add: double_1000_3_def double_0_1_def)
  show ?thesis
    using r n by (simp add: fst_match_invoices loaded_company_def loaded_portal_def t d)
qed

text \<open>
  C6, amended: for every matched record of a returned result, Difference is the float64
  difference of Portal Total and Firm Total, taken in that order (lines 95 and 126; no
  Close record is ever returned, see C1). It is the exact difference rounded to the
  nearest float64 value: not negative when the portal total is at least the company
  total, the negation of the difference taken the other way round, equal to the exact
  difference when that is a whole number below \<open>2 ^ 53\<close> in size, and otherwise, in the
  normal range, within \<open>1 / 2 ^ 53\<close> of it in relative error.
\<close>

theorem difference_is_float64_portal_minus_company:
  "Difference (exact_record (c, p)) = float64_sub (p_Total p) (c_Total c) \<and>
   Difference (close_record gstin c p) = float64_sub (p_Total p) (c_Total c) \<and>
   (fst (match_invoices company_df portal_df buffer_size) = Inr (matched, unmatched) \<longrightarrow>
      (\<forall>r \<in> set matched.
         Difference r = float64_sub (Portal_Total r) (Firm_Total r) \<and>
         (\<exists>c' \<in> set (company_rows company_df). \<exists>p' \<in> set (portal_rows portal_df).
            matched_of c' r \<and> Portal_Total r = p_Total p' \<and> Portal_Match r = p_Invoice_number p'))) \<and>
   (b \<le> a \<longrightarrow> float64_nonneg (float64_sub a b)) \<and>
   float64_sub b a = float64_neg (float64_sub a b) \<and>
   (\<bar>n\<bar> < 2 ^ 53 \<and> a - b = of_int n \<longrightarrow> float64_sub a b = Finite (a - b)) \<and>
   (float64_sub a b = Finite z \<and> 2 powi (- 1022) \<le> \<bar>a - b\<bar> \<longrightarrow>
      \<bar>z - (a - b)\<bar> \<le> \<bar>a - b\<bar> / 2 ^ 53)"
proof -
  have "Difference r = float64_sub (Portal_Total r) (Firm_Total r) \<and>
         (\<exists>c' \<in> set (company_rows company_df). \<exists>p' \<in> set (portal_rows portal_df).
            matched_of c' r \<and> Portal_Total r = p_Total p' \<and> Portal_Match r = p_Invoice_number p')"
    if res: "fst (match_invoices company_df portal_df buffer_size) = Inr (matched, unmatched)"
      and r: "r \<in> set matched" for r
  proof -
    from match_invoices_Inr(1) [OF res] r
    obtain c' p' where row: "(c', p') \<in> set (exact_matches (company_rows company_df) (portal_rows portal_df))"
      and eq: "r = exact_record (c', p')"
      by auto
    from row have "c' \<in> set (company_rows company_df)" "p' \<in> set (portal_rows portal_df)"
      by (simp_all add: set_exact_matches)
    moreover have "matched_of c' r"
      by (simp add: eq matched_of_exact_record)
    moreover have "Difference r = float64_sub (Portal_Total r) (Firm_Total r)"
      "Portal_Total r = p_Total p'" "Portal_Match r = p_Invoice_number p'"
      by (simp_all add: eq exact_record_def)
    ultimately show ?thesis by blast
  qed
  then have returned:
    "fst (match_invoices company_df portal_df buffer_size) = Inr (matched, unmatched) \<longrightarrow>
      (\<forall>r \<in> set matched.
         Difference r = float64_sub (Portal_Total r) (Firm_Total r) \<and>
         (\<exists>c' \<in> set (company_rows company_df). \<exists>p' \<in> set (portal_rows portal_df).
            matched_of c' r \<and> Portal_Total r = p_Total p' \<and> Portal_Match r = p_Invoice_number p'))"
    by blast
  have exact: "Difference (exact_record (c, p)) = float64_sub (p_Total p) (c_Total c)"
    by (simp add: exact_record_def)
  have close: "Difference (close_record gstin c p) = float64_sub (p_Total p) (c_Total c)"
    by (simp add: close_record_def)
  have sign: "b \<le> a \<longrightarrow> float64_nonneg (float64_sub a b)"
    using float64_round_nonneg [of "a - b"] by (simp add: float64_sub_def)
  have whole: "\<bar>n\<bar> < 2 ^ 53 \<and> a - b = of_int n \<longrightarrow> float64_sub a b = Finite (a - b)"
    using float64_sub_whole [of n a b] by blast
  have err: "float64_sub a b = Finite z \<and> 2 powi (- 1022) \<le> \<bar>a - b\<bar> \<longrightarrow>
      \<bar>z - (a - b)\<bar> \<le> \<bar>a - b\<bar> / 2 ^ 53"
    using float64_round_error [of "a - b" z] by (simp add: float64_sub_def)
  show ?thesis
    using exact close returned sign float64_sub_swap [of b a] whole err by blast
qed

theorem difference_is_float64_portal_minus_company_witness:
  "fst (match_invoices (loaded_company [company_example ''27ABCDE1234F1Z5'' ''INV/001''])
          (loaded_portal [portal_example ''27ABCDE1234F1Z5'' ''INV-001'' 105]) 0) =
     Inr ([exact_record (company_example ''27ABCDE1234F1Z5'' ''INV/001'',
                         portal_example ''27ABCDE1234F1Z5'' ''INV-001'' 105)], []) \<and>
   Firm_Total (exact_record (company_example ''27ABCDE1234F1Z5'' ''INV/001'',
                             portal_example ''27ABCDE1234F1Z5'' ''INV-001'' 105)) = 200 \<and>
   Portal_Total (exact_record (company_example ''27ABCDE1234F1Z5'' ''INV/001'',
                               portal_example ''27ABCDE1234F1Z5'' ''INV-001'' 105)) = 205 \<and>
   Difference (exact_record (company_example ''27ABCDE1234F1Z5'' ''INV/001'',
                             portal_example ''27ABCDE1234F1Z5'' ''INV-001'' 105)) =
     float64_sub 205 200 \<and>
   (200 :: rat) \<le> 205 \<and> \<bar>5 :: int\<bar> < 2 ^ 53 \<and> (205 :: rat) - 200 = of_int 5 \<and>
   float64_sub 205 200 = Finite 5 \<and>
   float64_nonneg (float64_sub 205 200) \<and>
   float64_sub 200 205 = Finite (- 5) \<and>
   Difference (close_record ''27ABCDE1234F1Z5'' (company_example ''27ABCDE1234F1Z5'' ''INV/001'')
                 (portal_example ''27ABCDE1234F1Z5'' ''INV-002'' 95)) = Finite (- 5) \<and>
   float64_sub double_1000_3 double_0_1 = Finite (8797852240812441 / 2 ^ 43) \<and>
   2 powi (- 1022) \<le> \<bar>double_1000_3 - double_0_1\<bar> \<and>
   \<bar>8797852240812441 / 2 ^ 43 - (double_1000_3 - double_0_1)\<bar> \<le>
     \<bar>double_1000_3 - double_0_1\<bar> / 2 ^ 53"
proof -
  let ?c = "company_example ''27ABCDE1234F1Z5'' ''INV/001''"
  let ?p = "portal_example ''27ABCDE1234F1Z5'' ''INV-001'' 105"
  let ?p' = "portal_example ''27ABCDE1234F1Z5'' ''INV-002'' 95"
  have r: "fst (match_invoices (loaded_company [?c]) (loaded_portal [?p]) 0) =
     Inr ([exact_record (?c, ?p)], [])"
    by (simp add: match_invoices_def match_rows_def exact_matches_def example_defs alnum_def)
  have t: "Firm_Total (exact_record (?c, ?p)) = 200" "Portal_Total (exact_record (?c, ?p)) = 205"
    "c_Total ?c = 200" "p_Total ?p = 205" "p_Total ?p' = 195"
    by (simp_all add: exact_record_def example_defs)
  have n: "\<bar>5 :: int\<bar> < 2 ^ 53" "(205 :: rat) - 200 = of_int 5" "(200 :: rat) \<le> 205"
    by simp_all
  have m: "\<bar>- 5 :: int\<bar> < 2 ^ 53" "(195 :: rat) - 200 = of_int (- 5)"
    by simp_all
  have e: "float64_sub double_1000_3 double_0_1 = Finite (8797852240812441 / 2 ^ 43)"
    by (rule float64_sub_example)
  have normal: "2 powi (- 1022) \<le> \<bar>double_1000_3 - double_0_1\<bar>"
  proof -
    have "(2 :: rat) powi (- 1022) \<le> 2 powi 0"
      by (rule power_int_increasing) simp_all
    also have "\<dots> \<le> \<bar>double_1000_3 - double_0_1\<bar>"
      by (simp add: double_1000_3_def double_0_1_def)
    finally show ?thesis .
  qed
  note w1 = difference_is_float64_portal_minus_company
    [of ?c ?p "''27ABCDE1234F1Z5''" "loaded_company [?c]" "loaded_portal [?p]" 0
        "[exact_record (?c, ?p)]" "[]" 200 205 5 5]
  note w2 = difference_is_float64_portal_minus_company
    [of ?c ?p' "''27ABCDE1234F1Z5''" "loaded_company [?c]" "loaded_portal [?p]" 0
        "[exact_record (?c, ?p)]" "[]" 200 195 "- 5" "- 5"]
  note w3 = difference_is_float64_portal_minus_company
    [of ?c ?p "''27ABCDE1234F1Z5''" "loaded_company [?c]" "loaded_portal [?p]" 0
        "[exact_record (?c, ?p)]" "[]" double_0_1 double_1000_3 0 "8797852240812441 / 2 ^ 43"]
  have a1: "Difference (exact_record (?c, ?p)) = float64_sub 205 200"
    using w1 t by simp
  have a2: "float64_sub 205 200 = Finite 5" "float64_nonneg (float64_sub 205 200)"
    using w1 n by (simp_all add: float64_nonneg_def)
  have a3: "float64_sub 195 200 = Finite (- 5)"
    using w2 m by simp
  have a4: "float64_sub 200 205 = Finite (- 5)"
    using w1 a2 by (simp add: float64_neg_def)
  have a5: "Difference (close_record ''27ABCDE1234F1Z5'' ?c ?p') = Finite (- 5)"
    using w2 t a3 by simp
  have a6: "\<bar>8797852240812441 / 2 ^ 43 - (double_1000_3 - double_0_1)\<bar> \<le>
     \<bar>double_1000_3 - double_0_1\<bar> / 2 ^ 53"
    using w3 e normal by blast
  show ?thesis
    using r t(1,2) a1 n a2 a4 a5 e normal a6 by (simp add: float64_nonneg_def)
qed

text \<open>
  C7, as the specification states it: a call has no side effect, and the two input
  tables are unchanged by it. Lines 72-75 assign columns on the frames of the caller:
  after the call the frames are not the frames passed in.
\<close>

theorem input_frames_mutated_counterexample:
  "snd (match_invoices (loaded_company [company_example ''27ABCDE1234F1Z5'' ''INV/001''])
          (loaded_portal [portal_example ''27ABCDE1234F1Z5'' ''INV-001'' 100]) 0) \<noteq>
     (loaded_company [company_example ''27ABCDE1234F1Z5'' ''INV/001''],
      loaded_portal [portal_example ''27ABCDE1234F1Z5'' ''INV-001'' 100])"
  by (simp add: match_invoices_def loaded_company_def loaded_portal_def)

text \<open>
  C7, amended: a call changes the input frames only by assigning the derived columns
  \<^verbatim>\<open>Clean_Invoice\<close> (both frames) and \<^verbatim>\<open>Date_Str\<close> (company frame), whatever the
  tolerance and whether it returns or raises. The rows, that is every column of the
  loader, are unchanged, and a further call leaves the frames as the first one left them.
\<close>

theorem only_derived_columns_are_assigned:
  "company_rows (fst (snd (match_invoices company_df portal_df buffer_size))) =
     company_rows company_df \<and>
   portal_rows (snd (snd (match_invoices company_df portal_df buffer_size))) =
     portal_rows portal_df \<and>
   company_Clean_Invoice (fst (snd (match_invoices company_df portal_df buffer_size))) =
     Some (map (\<lambda>c. clean_invoice (c_Invoice_No c)) (company_rows company_df)) \<and>
   company_Date_Str (fst (snd (match_invoices company_df portal_df buffer_size))) =
     Some (map (\<lambda>c. strftime_dmY (c_Invoice_Date c)) (company_rows company_df)) \<and>
   portal_Clean_Invoice (snd (snd (match_invoices company_df portal_df buffer_size))) =
     Some (map (\<lambda>p. clean_invoice (p_Invoice_number p)) (portal_rows portal_df)) \<and>
   snd (match_invoices (fst (snd (match_invoices company_df portal_df buffer_size)))
          (snd (snd (match_invoices company_df portal_df buffer_size))) buffer_size') =
     snd (match_invoices company_df portal_df buffer_size)"
  by (simp add: match_invoices_def Let_def)

theorem only_derived_columns_are_assigned_witness:
  "snd (match_invoices (loaded_company [company_example ''27ABCDE1234F1Z5'' ''INV/001''])
          (loaded_portal [portal_example ''27ABCDE1234F1Z5'' ''INV-002'' 100]) 10) =
     (\<lparr>company_rows = [company_example ''27ABCDE1234F1Z5'' ''INV/001''],
       company_Clean_Invoice = Some [''INV001''],
       company_Date_Str = Some [''15-01-2024'']\<rparr>,
      \<lparr>portal_rows = [portal_example ''27ABCDE1234F1Z5'' ''INV-002'' 100],
       portal_Clean_Invoice = Some [''INV002'']\<rparr>)"
proof -
  let ?A = "loaded_company [company_example ''27ABCDE1234F1Z5'' ''INV/001'']"
  let ?B = "loaded_portal [portal_example ''27ABCDE1234F1Z5'' ''INV-002'' 100]"
  note t = only_derived_columns_are_assigned [of ?A ?B 10 10]
  have c: "fst (snd (match_invoices ?A ?B 10)) =
     \<lparr>company_rows = [company_example ''27ABCDE1234F1Z5'' ''INV/001''],
       company_Clean_Invoice = Some [''INV001''],
       company_Date_Str = Some [''15-01-2024'']\<rparr>"
  proof (rule company_df.equality)
    show "company_rows (fst (snd (match_invoices ?A ?B 10))) =
        company_rows \<lparr>company_rows = [company_example ''27ABCDE1234F1Z5'' ''INV/001''],
       company_Clean_Invoice = Some [''INV001''],
       company_Date_Str = Some [''15-01-2024'']\<rparr>"
      using t by (simp add: loaded_company_def)
    show "company_Clean_Invoice (fst (snd (match_invoices ?A ?B 10))) =
        company_Clean_Invoice \<lparr>company_rows = [company_example ''27ABCDE1234F1Z5'' ''INV/001''],
       company_Clean_Invoice = Some [''INV001''],
       company_Date_Str = Some [''15-01-2024'']\<rparr>"
      using t by (simp add: loaded_company_def company_example_def alnum_def)
    show "company_Date_Str (fst (snd (match_invoices ?A ?B 10))) =
        company_Date_Str \<lparr>company_rows = [company_example ''27ABCDE1234F1Z5'' ''INV/001''],
       company_Clean_Invoice = Some [''INV001''],
       company_Date_Str = Some [''15-01-2024'']\<rparr>"
      using t by (simp add: loaded_company_def company_example_def example_date_def
          strftime_dmY_def digit_def)
  qed simp
  have p: "snd (snd (match_invoices ?A ?B 10)) =
     \<lparr>portal_rows = [portal_example ''27ABCDE1234F1Z5'' ''INV-002'' 100],
       portal_Clean_Invoice = Some [''INV002'']\<rparr>"
  proof (rule portal_df.equality)
    show "portal_rows (snd (snd (match_invoices ?A ?B 10))) =
        portal_rows \<lparr>portal_rows = [portal_example ''27ABCDE1234F1Z5'' ''INV-002'' 100],
       portal_Clean_Invoice = Some [''INV002'']\<rparr>"
      using t by (simp add: loaded_portal_def)
    show "portal_Clean_Invoice (snd (snd (match_invoices ?A ?B 10))) =
        portal_Clean_Invoice \<lparr>portal_rows = [portal_example ''27ABCDE1234F1Z5'' ''INV-002'' 100],
       portal_Clean_Invoice = Some [''INV002'']\<rparr>"
      using t by (simp add: loaded_portal_def portal_example_def alnum_def)
  qed simp
  show ?thesis
    using c p by (simp add: prod_eq_iff)
qed

text \<open>
  C8: the output is a function of the rows of the two frames and of the tolerance. Two
  frames with the same rows give the same output, element for element and in the same
  order, whatever derived columns an earlier call left on them; in particular a second
  call on the frames as the first call left them gives the same output and the same
  frames. The model has no other source of variation: the set of line 100 is only
  tested for membership, and \<^verbatim>\<open>unique\<close> keeps the order of first occurrence.
\<close>

theorem same_rows_same_output:
  "(company_rows company_df' = company_rows company_df \<and>
    portal_rows portal_df' = portal_rows portal_df \<longrightarrow>
      fst (match_invoices company_df' portal_df' buffer_size) =
      fst (match_invoices company_df portal_df buffer_size)) \<and>
   match_invoices (fst (snd (match_invoices company_df portal_df buffer_size)))
     (snd (snd (match_invoices company_df portal_df buffer_size))) buffer_size =
   match_invoices company_df portal_df buffer_size"
  by (simp add: match_invoices_def Let_def)

theorem same_rows_same_output_witness:
  "fst (match_invoices
          (loaded_company [company_example ''27ABCDE1234F1Z5'' ''INV/001'',
                           company_example ''27ABCDE1234F1Z5'' ''INV/003''])
          (loaded_portal [portal_example ''27ABCDE1234F1Z5'' ''INV-001'' 105]) 0) =
     Inr ([exact_record (company_example ''27ABCDE1234F1Z5'' ''INV/001'',
                         portal_example ''27ABCDE1234F1Z5'' ''INV-001'' 105)],
          [unmatched_record (company_example ''27ABCDE1234F1Z5'' ''INV/003'')]) \<and>
   fst (match_invoices
          (fst (snd (match_invoices
             (loaded_company [company_example ''27ABCDE1234F1Z5'' ''INV/001'',
                              company_example ''27ABCDE1234F1Z5'' ''INV/003''])
             (loaded_portal [portal_example ''27ABCDE1234F1Z5'' ''INV-001'' 105]) 0)))
          (snd (snd (match_invoices
             (loaded_company [company_example ''27ABCDE1234F1Z5'' ''INV/001'',
                              company_example ''27ABCDE1234F1Z5'' ''INV/003''])
             (loaded_portal [portal_example ''27ABCDE1234F1Z5'' ''INV-001'' 105]) 0))) 0) =
     Inr ([exact_record (company_example ''27ABCDE1234F1Z5'' ''INV/001'',
                         portal_example ''27ABCDE1234F1Z5'' ''INV-001'' 105)],
          [unmatched_record (company_example ''27ABCDE1234F1Z5'' ''INV/003'')]) \<and>
   fst (match_invoices
          \<lparr>company_rows = [company_example ''27ABCDE1234F1Z5'' ''INV/001'',
                           company_example ''27ABCDE1234F1Z5'' ''INV/003''],
           company_Clean_Invoice = Some [''stale''], company_Date_Str = None\<rparr>
          (loaded_portal [portal_example ''27ABCDE1234F1Z5'' ''INV-001'' 105]) 0) =
     Inr ([exact_record (company_example ''27ABCDE1234F1Z5'' ''INV/001'',
                         portal_example ''27ABCDE1234F1Z5'' ''INV-001'' 105)],
          [unmatched_record (company_example ''27ABCDE1234F1Z5'' ''INV/003'')])"
proof -
  have r: "match_rows [company_example ''27ABCDE1234F1Z5'' ''INV/001'',
                    company_example ''27ABCDE1234F1Z5'' ''INV/003'']
          [portal_example ''27ABCDE1234F1Z5'' ''INV-001'' 105] 0 =
     Inr ([exact_record (company_example ''27ABCDE1234F1Z5'' ''INV/001'',
                         portal_example ''27ABCDE1234F1Z5'' ''INV-001'' 105)],
          [unmatched_record (company_example ''27ABCDE1234F1Z5'' ''INV/003'')])"
    by (simp add: match_rows_no_close exact_matches_def example_defs alnum_def)
  have f: "fst (match_invoices
          (loaded_company [company_example ''27ABCDE1234F1Z5'' ''INV/001'',
                           company_example ''27ABCDE1234F1Z5'' ''INV/003''])
          (loaded_portal [portal_example ''27ABCDE1234F1Z5'' ''INV-001'' 105]) 0) =
     Inr ([exact_record (company_example ''27ABCDE1234F1Z5'' ''INV/001'',
                         portal_example ''27ABCDE1234F1Z5'' ''INV-001'' 105)],
          [unmatched_record (company_example ''27ABCDE1234F1Z5'' ''INV/003'')])"
    using r by (simp add: fst_match_invoices loaded_company_def loaded_portal_def)
  have rows: "company_rows \<lparr>company_rows = [company_example ''27ABCDE1234F1Z5'' ''INV/001'',
                           company_example ''27ABCDE1234F1Z5'' ''INV/003''],
           company_Clean_Invoice = Some [''stale''], company_Date_Str = None\<rparr> =
      company_rows (loaded_company [company_example ''27ABCDE1234F1Z5'' ''INV/001'',
                           company_example ''27ABCDE1234F1Z5'' ''INV/003''])"
    by (simp add: loaded_company_def)
  show ?thesis
    using f rows
      same_rows_same_output
        [of "\<lparr>company_rows = [company_example ''27ABCDE1234F1Z5'' ''INV/001'',
                           company_example ''27ABCDE1234F1Z5'' ''INV/003''],
           company_Clean_Invoice = Some [''stale''], company_Date_Str = None\<rparr>"
            "loaded_company [company_example ''27ABCDE1234F1Z5'' ''INV/001'',
                           company_example ''27ABCDE1234F1Z5'' ''INV/003'']"
            "loaded_portal [portal_example ''27ABCDE1234F1Z5'' ''INV-001'' 105]"
            "loaded_portal [portal_example ''27ABCDE1234F1Z5'' ''INV-001'' 105]" 0]
    by simp
qed

text \<open>
  C9: when a dictionary of the matched list, Exact or Close, is of a company row, no
  company row with the same Invoice No is in the unmatched list. A second row with that
  Invoice No and no counterpart of its own is then in neither list, as the instance after
  the theorem shows.
\<close>

theorem duplicate_invoice_no_dropped_from_unmatched:
  assumes res: "fst (match_invoices company_df portal_df buffer_size) = Inr (matched, unmatched)"
    and c: "in_exact c matched \<or> in_close c matched"
    and same: "c_Invoice_No c' = c_Invoice_No c"
  shows "\<not> in_unmatched c' unmatched"
proof
  let ?E = "exact_matches (company_rows company_df) (portal_rows portal_df)"
  let ?MI = "(\<lambda>row. c_Invoice_No (fst row)) ` set ?E"
  assume "in_unmatched c' unmatched"
  then obtain c'' where c'': "c_Invoice_No c'' \<notin> ?MI" "unmatched_record c' = unmatched_record c''"
    by (auto simp: in_unmatched_def match_invoices_Inr(2) [OF res])
  from c obtain r where r: "r \<in> set matched" "matched_of c r"
    by (auto simp: in_exact_def in_close_def)
  then obtain row where row: "row \<in> set ?E" "r = exact_record row"
    by (auto simp: match_invoices_Inr(1) [OF res])
  have "c_Invoice_No c = c_Invoice_No (fst row)"
    using matched_of_Invoice_No [OF r(2)] by (simp add: row(2) Invoice_No_exact_record)
  then have "c_Invoice_No c \<in> ?MI"
    using row(1) by (rule image_eqI)
  moreover have "c_Invoice_No c'' = c_Invoice_No c"
    using unmatched_record_Invoice_No [OF c''(2)] same by simp
  ultimately show False
    using c''(1) by simp
qed

theorem duplicate_invoice_no_dropped_from_unmatched_witness:
  "company_example ''27ABCDE1234F1Z5'' ''INV/001'' \<noteq> company_example ''29PQRST5678K1Z2'' ''INV/001'' \<and>
   fst (match_invoices
          (loaded_company [company_example ''27ABCDE1234F1Z5'' ''INV/001'',
                           company_example ''29PQRST5678K1Z2'' ''INV/001'',
                           company_example ''29PQRST5678K1Z2'' ''INV/007''])
          (loaded_portal [portal_example ''27ABCDE1234F1Z5'' ''INV-001'' 100]) 0) =
     Inr ([exact_record (company_example ''27ABCDE1234F1Z5'' ''INV/001'',
                         portal_example ''27ABCDE1234F1Z5'' ''INV-001'' 100)],
          [unmatched_record (company_example ''29PQRST5678K1Z2'' ''INV/007'')]) \<and>
   in_exact (company_example ''27ABCDE1234F1Z5'' ''INV/001'')
     [exact_record (company_example ''27ABCDE1234F1Z5'' ''INV/001'',
                    portal_example ''27ABCDE1234F1Z5'' ''INV-001'' 100)] \<and>
   c_Invoice_No (company_example ''29PQRST5678K1Z2'' ''INV/001'') =
     c_Invoice_No (company_example ''27ABCDE1234F1Z5'' ''INV/001'') \<and>
   \<not> in_unmatched (company_example ''29PQRST5678K1Z2'' ''INV/001'')
       [unmatched_record (company_example ''29PQRST5678K1Z2'' ''INV/007'')] \<and>
   \<not> in_exact (company_example ''29PQRST5678K1Z2'' ''INV/001'')
     [exact_record (company_example ''27ABCDE1234F1Z5'' ''INV/001'',
                    portal_example ''27ABCDE1234F1Z5'' ''INV-001'' 100)] \<and>
   \<not> in_close (company_example ''29PQRST5678K1Z2'' ''INV/001'')
     [exact_record (company_example ''27ABCDE1234F1Z5'' ''INV/001'',
                    portal_example ''27ABCDE1234F1Z5'' ''INV-001'' 100)]"
proof -
  have res: "fst (match_invoices
          (loaded_company [company_example ''27ABCDE1234F1Z5'' ''INV/001'',
                           company_example ''29PQRST5678K1Z2'' ''INV/001'',
                           company_example ''29PQRST5678K1Z2'' ''INV/007''])
          (loaded_portal [portal_example ''27ABCDE1234F1Z5'' ''INV-001'' 100]) 0) =
     Inr ([exact_record (company_example ''27ABCDE1234F1Z5'' ''INV/001'',
                         portal_example ''27ABCDE1234F1Z5'' ''INV-001'' 100)],
          [unmatched_record (company_example ''29PQRST5678K1Z2'' ''INV/007'')])"
    by (simp add: match_invoices_def match_rows_def exact_matches_def example_defs alnum_def)
  have ex: "in_exact (company_example ''27ABCDE1234F1Z5'' ''INV/001'')
     [exact_record (company_example ''27ABCDE1234F1Z5'' ''INV/001'',
                    portal_example ''27ABCDE1234F1Z5'' ''INV-001'' 100)]"
    by (simp add: in_exact_def matched_of_exact_record Match_Status_exact_record)
  then have c: "in_exact (company_example ''27ABCDE1234F1Z5'' ''INV/001'')
     [exact_record (company_example ''27ABCDE1234F1Z5'' ''INV/001'',
                    portal_example ''27ABCDE1234F1Z5'' ''INV-001'' 100)] \<or>
    in_close (company_example ''27ABCDE1234F1Z5'' ''INV/001'')
     [exact_record (company_example ''27ABCDE1234F1Z5'' ''INV/001'',
                    portal_example ''27ABCDE1234F1Z5'' ''INV-001'' 100)]"
    by simp
  have same: "c_Invoice_No (company_example ''29PQRST5678K1Z2'' ''INV/001'') =
     c_Invoice_No (company_example ''27ABCDE1234F1Z5'' ''INV/001'')"
    by (simp add: example_defs)
  have neq: "company_example ''27ABCDE1234F1Z5'' ''INV/001'' \<noteq> company_example ''29PQRST5678K1Z2'' ''INV/001''"
    by (simp add: example_defs)
  have others: "\<not> in_exact (company_example ''29PQRST5678K1Z2'' ''INV/001'')
     [exact_record (company_example ''27ABCDE1234F1Z5'' ''INV/001'',
                    portal_example ''27ABCDE1234F1Z5'' ''INV-001'' 100)]"
    "\<not> in_close (company_example ''29PQRST5678K1Z2'' ''INV/001'')
     [exact_record (company_example ''27ABCDE1234F1Z5'' ''INV/001'',
                    portal_example ''27ABCDE1234F1Z5'' ''INV-001'' 100)]"
    by (simp_all add: in_exact_def in_close_def matched_of_def exact_record_def example_defs)
  show ?thesis
    using neq res ex same others
      duplicate_invoice_no_dropped_from_unmatched [OF res c same]
    by simp
qed

text \<open>
  C10: for every tolerance less than or equal to zero, negative ones included, the call
  skips the close pass (no dictionary has status Close), raises no error, and returns
  what the call with tolerance 0 returns, leaving the frames in the same state.
\<close>

theorem nonpositive_tolerance_as_zero:
  assumes "buffer_size \<le> 0"
  shows "match_invoices company_df portal_df buffer_size = match_invoices company_df portal_df 0 \<and>
         (\<exists>matched unmatched.
            fst (match_invoices company_df portal_df buffer_size) = Inr (matched, unmatched) \<and>
            (\<forall>r \<in> set matched. Match_Status r = Exact))"
proof -
  have "match_rows (company_rows company_df) (portal_rows portal_df) buffer_size =
        match_rows (company_rows company_df) (portal_rows portal_df) 0"
    using assms by (simp add: match_rows_no_close)
  then have "match_invoices company_df portal_df buffer_size = match_invoices company_df portal_df 0"
    by (simp add: match_invoices_def Let_def)
  moreover have "\<forall>r \<in> set (map exact_record (exact_matches (company_rows company_df) (portal_rows portal_df))).
                   Match_Status r = Exact"
    by (auto simp: exact_record_def)
  ultimately show ?thesis
    using assms by (simp add: fst_match_invoices match_rows_no_close del: set_map)
qed

theorem nonpositive_tolerance_as_zero_witness:
  "(- 5 :: rat) \<le> 0 \<and>
   match_invoices (loaded_company [company_example ''27ABCDE1234F1Z5'' ''INV/001''])
     (loaded_portal [portal_example ''27ABCDE1234F1Z5'' ''INV-002'' 100]) (- 5) =
   match_invoices (loaded_company [company_example ''27ABCDE1234F1Z5'' ''INV/001''])
     (loaded_portal [portal_example ''27ABCDE1234F1Z5'' ''INV-002'' 100]) 0 \<and>
   fst (match_invoices (loaded_company [company_example ''27ABCDE1234F1Z5'' ''INV/001''])
     (loaded_portal [portal_example ''27ABCDE1234F1Z5'' ''INV-002'' 100]) (- 5)) =
     Inr ([], [unmatched_record (company_example ''27ABCDE1234F1Z5'' ''INV/001'')])"
proof -
  have h: "(- 5 :: rat) \<le> 0" by simp
  have e: "fst (match_invoices (loaded_company [company_example ''27ABCDE1234F1Z5'' ''INV/001''])
     (loaded_portal [portal_example ''27ABCDE1234F1Z5'' ''INV-002'' 100]) (- 5)) =
     Inr ([], [unmatched_record (company_example ''27ABCDE1234F1Z5'' ''INV/001'')])"
    by (simp add: match_invoices_def match_rows_def exact_matches_def example_defs alnum_def)
  show ?thesis
    using h e nonpositive_tolerance_as_zero [OF h,
      of "loaded_company [company_example ''27ABCDE1234F1Z5'' ''INV/001'']"
         "loaded_portal [portal_example ''27ABCDE1234F1Z5'' ''INV-002'' 100]"]
    by simp
qed

end
